theory Spec2Isabelle
  imports Main
begin

section \<open>Songs REST service: a shallow embedding of backend/routes.py\<close>

text \<open>
  The handlers of \<^verbatim>\<open>backend/routes.py\<close> are translated one by one. What a handler reads
  from its surroundings is made explicit:
  \<^item> the decoded request body (what \<^verbatim>\<open>request.get_json()\<close> returns, \<^verbatim>\<open>None\<close> being
    \<open>JNull\<close>) and the request method are fields of a \<open>request\<close> record;
  \<^item> the \<^verbatim>\<open>db.songs\<close> collection, the application log and the record of the store calls
    made so far are fields of a \<open>world\<close> record that every handler takes and returns;
  \<^item> an exception is the \<open>Inl\<close> of a sum; \<^verbatim>\<open>try ... except\<close> is \<open>try_except\<close>.
  Numbers are Python integers (\<open>int\<close>, unbounded); JSON numbers with a fraction or
  an exponent (Python floats) are not part of the model. A string is a list of
  characters, each read as the code point of the same number (0 to 255).
\<close>

subsection \<open>JSON values and Python's view of them\<close>

datatype json =
    JNull
  | JBool bool
  | JInt int
  | JStr string
  | JArr "json list"
  | JObj "(string \<times> json) list"

datatype exn =
    TypeError
  | KeyError
  | ValueError
  | OverflowError
  | InvalidId
  | InvalidDocument
  | DuplicateKeyError
  | WriteError
  | OperationFailure
  | PyMongoError string

text \<open>\<^verbatim>\<open>not song\<close> is \<open>\<not> truthy song\<close>: \<^verbatim>\<open>None\<close>, \<^verbatim>\<open>False\<close>, zero and every empty
  container are false.\<close>

fun truthy :: "json \<Rightarrow> bool" where
  "truthy JNull = False"
| "truthy (JBool b) = b"
| "truthy (JInt n) = (n \<noteq> 0)"
| "truthy (JStr s) = (s \<noteq> [])"
| "truthy (JArr xs) = (xs \<noteq> [])"
| "truthy (JObj kvs) = (kvs \<noteq> [])"

definition is_substring :: "string \<Rightarrow> string \<Rightarrow> bool" where
  "is_substring k s = list_ex (\<lambda>i. take (length k) (drop i s) = k) [0..<Suc (length s)]"

text \<open>\<^verbatim>\<open>k in song\<close>: a key test on a dict, a membership test on a list, a substring test
  on a string, a \<^verbatim>\<open>TypeError\<close> on anything else.\<close>

fun py_in :: "string \<Rightarrow> json \<Rightarrow> exn + bool" where
  "py_in k (JObj kvs) = Inr (k \<in> fst ` set kvs)"
| "py_in k (JArr xs) = Inr (JStr k \<in> set xs)"
| "py_in k (JStr s) = Inr (is_substring k s)"
| "py_in k JNull = Inl TypeError"
| "py_in k (JBool b) = Inl TypeError"
| "py_in k (JInt n) = Inl TypeError"

text \<open>\<^verbatim>\<open>song[k]\<close> for a string \<open>k\<close>.\<close>

fun getitem :: "json \<Rightarrow> string \<Rightarrow> exn + json" where
  "getitem (JObj kvs) k = (case map_of kvs k of Some v \<Rightarrow> Inr v | None \<Rightarrow> Inl KeyError)"
| "getitem JNull k = Inl TypeError"
| "getitem (JBool b) k = Inl TypeError"
| "getitem (JInt n) k = Inl TypeError"
| "getitem (JStr s) k = Inl TypeError"
| "getitem (JArr xs) k = Inl TypeError"

subsection \<open>Formatting: \<^verbatim>\<open>str\<close> and \<^verbatim>\<open>repr\<close>\<close>

definition digit_char :: "nat \<Rightarrow> char" where
  "digit_char d = ''0123456789abcdef'' ! d"

fun decimal :: "nat \<Rightarrow> string" where
  "decimal n = (if n < 10 then [digit_char n] else decimal (n div 10) @ [digit_char (n mod 10)])"

declare decimal.simps [simp del]

definition str_int :: "int \<Rightarrow> string" where
  "str_int n = (if n < 0 then CHR ''-'' # decimal (nat (- n)) else decimal (nat n))"

definition printable :: "char \<Rightarrow> bool" where
  "printable c = (let n = (of_char c :: nat) in (32 \<le> n \<and> n < 127) \<or> (161 \<le> n \<and> n \<noteq> 173))"

definition repr_char :: "char \<Rightarrow> char \<Rightarrow> string" where
  "repr_char q c =
     (if c = q \<or> c = CHR 0x5C then [CHR 0x5C, c]
      else if c = CHR 0x09 then [CHR 0x5C, CHR ''t'']
      else if c = CHR 0x0A then [CHR 0x5C, CHR ''n'']
      else if c = CHR 0x0D then [CHR 0x5C, CHR ''r'']
      else if printable c then [c]
      else [CHR 0x5C, CHR ''x'', digit_char (of_char c div 16), digit_char (of_char c mod 16)])"

definition repr_str :: "string \<Rightarrow> string" where
  "repr_str s =
     (let q = (if CHR 0x27 \<in> set s \<and> CHR 0x22 \<notin> set s then CHR 0x22 else CHR 0x27)
      in q # concat (map (repr_char q) s) @ [q])"

fun join :: "string \<Rightarrow> string list \<Rightarrow> string" where
  "join sep [] = []"
| "join sep [x] = x"
| "join sep (x # y # ys) = x @ sep @ join sep (y # ys)"

fun py_repr :: "json \<Rightarrow> string"
  and repr_items :: "json list \<Rightarrow> string list"
  and repr_pairs :: "(string \<times> json) list \<Rightarrow> string list" where
  "py_repr JNull = ''None''"
| "py_repr (JBool b) = (if b then ''True'' else ''False'')"
| "py_repr (JInt n) = str_int n"
| "py_repr (JStr s) = repr_str s"
| "py_repr (JArr xs) = ''['' @ join '', '' (repr_items xs) @ '']''"
| "py_repr (JObj kvs) = ''{'' @ join '', '' (repr_pairs kvs) @ ''}''"
| "repr_items [] = []"
| "repr_items (x # xs) = py_repr x # repr_items xs"
| "repr_pairs [] = []"
| "repr_pairs ((k, v) # kvs) = (repr_str k @ '': '' @ py_repr v) # repr_pairs kvs"

text \<open>What an f-string puts in place of \<^verbatim>\<open>{song['id']}\<close>.\<close>

fun py_str :: "json \<Rightarrow> string" where
  "py_str (JStr s) = s"
| "py_str JNull = py_repr JNull"
| "py_str (JBool b) = py_repr (JBool b)"
| "py_str (JInt n) = py_repr (JInt n)"
| "py_str (JArr xs) = py_repr (JArr xs)"
| "py_str (JObj kvs) = py_repr (JObj kvs)"

subsection \<open>Path segments: \<^verbatim>\<open>str.isdigit\<close>, \<^verbatim>\<open>int\<close>, \<^verbatim>\<open>ObjectId\<close>\<close>

text \<open>
  \<^verbatim>\<open>str.isdigit\<close> holds of a non-empty string of digit characters. Among the code
  points below 256 these are the ten decimal digits and the superscript digits
  U+00B2, U+00B3 and U+00B9. \<^verbatim>\<open>int\<close> reads decimal digits only and raises
  \<^verbatim>\<open>ValueError\<close> on a superscript digit; \<open>py_int\<close> is \<^verbatim>\<open>int\<close> on the strings that
  passed \<^verbatim>\<open>isdigit\<close>, the only ones the handlers give it. Python 3.11 and later (and
  the security releases of the older branches) also raise \<^verbatim>\<open>ValueError\<close> on a string
  of more than 4300 digits; \<open>py_int\<close> follows them.
\<close>

definition is_decimal_char :: "char \<Rightarrow> bool" where
  "is_decimal_char c = (c \<in> set ''0123456789'')"

definition is_digit_char :: "char \<Rightarrow> bool" where
  "is_digit_char c = (is_decimal_char c \<or> c \<in> set [CHR 0xB2, CHR 0xB3, CHR 0xB9])"

definition isdigit :: "string \<Rightarrow> bool" where
  "isdigit s = (s \<noteq> [] \<and> list_all is_digit_char s)"

definition digit_value :: "char \<Rightarrow> nat" where
  "digit_value c = of_char c - 48"

definition py_int :: "string \<Rightarrow> exn + int" where
  "py_int s =
     (if s \<noteq> [] \<and> list_all is_decimal_char s \<and> length s \<le> 4300
      then Inr (int (foldl (\<lambda>n c. 10 * n + digit_value c) 0 s))
      else Inl ValueError)"

text \<open>
  An ObjectId is twelve bytes, kept here as the number they spell. \<^verbatim>\<open>ObjectId(s)\<close>
  accepts a string of 24 hexadecimal digits and raises \<^verbatim>\<open>InvalidId\<close> on any other
  string; \<^verbatim>\<open>str\<close> of an ObjectId is its 24 lower-case hexadecimal digits. (The
  constructor hands a string of 24 characters to \<^verbatim>\<open>bytes.fromhex\<close>, which skips white
  space; what becomes of a string of hexadecimal digits and white space is outside
  the model.)
\<close>

type_synonym objectid = nat

definition hex_value :: "char \<Rightarrow> nat option" where
  "hex_value c =
     (if c \<in> set ''0123456789'' then Some (of_char c - 48)
      else if c \<in> set ''abcdef'' then Some (of_char c - 87)
      else if c \<in> set ''ABCDEF'' then Some (of_char c - 55)
      else None)"

definition ObjectId :: "string \<Rightarrow> exn + objectid" where
  "ObjectId s =
     (if length s = 24 \<and> list_all (\<lambda>c. hex_value c \<noteq> None) s
      then Inr (foldl (\<lambda>n c. 16 * n + the (hex_value c)) 0 s)
      else Inl InvalidId)"

definition hex24 :: "objectid \<Rightarrow> string" where
  "hex24 n = map (\<lambda>i. digit_char ((n div 16 ^ i) mod 16)) (rev [0..<24])"

subsection \<open>Documents and \<^verbatim>\<open>parse_json\<close>\<close>

text \<open>
  A stored document is its native key (\<^verbatim>\<open>_id\<close>) and its other fields in order. The
  key is an ObjectId the store assigned, or the \<^verbatim>\<open>_id\<close> value the inserted document
  already carried.
\<close>

datatype native_key = Oid objectid | Supplied json

record document =
  doc_id :: native_key
  doc_fields :: "(string \<times> json) list"

text \<open>
  \<^verbatim>\<open>json_util.dumps\<close> writes an ObjectId as the object \<^verbatim>\<open>{"$oid": "<24 hex digits>"}\<close>
  and every JSON value as itself; \<^verbatim>\<open>json.loads\<close> reads that text back.
\<close>

fun render_key :: "native_key \<Rightarrow> json" where
  "render_key (Oid n) = JObj [(''$oid'', JStr (hex24 n))]"
| "render_key (Supplied v) = v"

definition parse_json :: "document \<Rightarrow> json" where
  "parse_json d = JObj ((''_id'', render_key (doc_id d)) # doc_fields d)"

text \<open>\<^verbatim>\<open>parse_json\<close> of a list of documents, and of the result of \<^verbatim>\<open>find_one\<close>, which
  may be \<^verbatim>\<open>None\<close>.\<close>

definition parse_json_list :: "document list \<Rightarrow> json" where
  "parse_json_list ds = JArr (map parse_json ds)"

definition parse_json_opt :: "document option \<Rightarrow> json" where
  "parse_json_opt r = (case r of None \<Rightarrow> JNull | Some d \<Rightarrow> parse_json d)"

subsection \<open>The world: collection, pending store failures, store calls made, log\<close>

datatype filter = Everything | ById json | ByKey native_key

datatype call =
    CountDocuments filter
  | Find filter
  | FindOne filter
  | InsertOne json
  | FindOneAndUpdate filter json
  | DeleteOne filter

text \<open>
  \<open>outages\<close> is the plan of what the next store calls meet: \<open>Some e\<close> makes the call
  raise \<open>e\<close> and leave the collection as it was, \<open>None\<close> (or an exhausted plan) lets
  the store answer. \<open>trace\<close> lists every store call with the exception it raised, if
  any. A \<open>log\<close> entry \<open>(msg, e)\<close> is the line \<^verbatim>\<open>app.logger.error(msg + str(e))\<close>.
\<close>

record world =
  docs :: "document list"
  outages :: "exn option list"
  trace :: "(call \<times> exn option) list"
  log :: "(string \<times> exn) list"

type_synonym 'a action = "world \<Rightarrow> (exn + 'a) \<times> world"

definition succeed :: "'a \<Rightarrow> 'a action" where
  "succeed x w = (Inr x, w)"

definition lift :: "exn + 'a \<Rightarrow> 'a action" where
  "lift r w = (r, w)"

definition then_do :: "'a action \<Rightarrow> ('a \<Rightarrow> 'b action) \<Rightarrow> 'b action" where
  "then_do m f w = (case m w of (Inl e, w') \<Rightarrow> (Inl e, w') | (Inr x, w') \<Rightarrow> f x w')"

definition try_except :: "'a action \<Rightarrow> (exn \<Rightarrow> 'a action) \<Rightarrow> 'a action" where
  "try_except m h w = (case m w of (Inl e, w') \<Rightarrow> h e w' | (Inr x, w') \<Rightarrow> (Inr x, w'))"

definition logger_error :: "string \<Rightarrow> exn \<Rightarrow> unit action" where
  "logger_error msg e w = (Inr (), w\<lparr>log := log w @ [(msg, e)]\<rparr>)"

subsection \<open>What the driver can encode\<close>

text \<open>
  Every document and every filter is encoded as BSON before it reaches the store.
  The encoder raises \<^verbatim>\<open>OverflowError\<close> on an integer outside 64 bits and
  \<^verbatim>\<open>InvalidDocument\<close> on a key that contains the NUL character; \<open>bson_error\<close> is
  the first such error in the order of the document, if there is one.
\<close>

definition bson_int :: "int \<Rightarrow> bool" where
  "bson_int n = (- (2 ^ 63) \<le> n \<and> n < 2 ^ 63)"

fun bson_error :: "json \<Rightarrow> exn option"
  and bson_error_items :: "json list \<Rightarrow> exn option"
  and bson_error_pairs :: "(string \<times> json) list \<Rightarrow> exn option" where
  "bson_error JNull = None"
| "bson_error (JBool b) = None"
| "bson_error (JInt n) = (if bson_int n then None else Some OverflowError)"
| "bson_error (JStr s) = None"
| "bson_error (JArr xs) = bson_error_items xs"
| "bson_error (JObj kvs) = bson_error_pairs kvs"
| "bson_error_items [] = None"
| "bson_error_items (x # xs) =
     (case bson_error x of Some e \<Rightarrow> Some e | None \<Rightarrow> bson_error_items xs)"
| "bson_error_pairs [] = None"
| "bson_error_pairs ((k, v) # kvs) =
     (if CHR 0x00 \<in> set k then Some InvalidDocument
      else case bson_error v of Some e \<Rightarrow> Some e | None \<Rightarrow> bson_error_pairs kvs)"

subsection \<open>The document store\<close>

text \<open>
  The store is MongoDB behind pymongo, the external collaborator of the service. Its
  operations are modelled as far as the handlers use them.
  \<^item> A filter \<^verbatim>\<open>{"id": v}\<close> matches a record whose \<^verbatim>\<open>id\<close> is equal to \<open>v\<close> or is an
    array with an element equal to \<open>v\<close>; when \<open>v\<close> is \<^verbatim>\<open>null\<close> it also matches a
    record that has no \<^verbatim>\<open>id\<close>. Objects are equal when they have the same fields in
    the same order. A filter \<^verbatim>\<open>{"_id": k}\<close> matches the record with native key \<open>k\<close>.
  \<^item> \<^verbatim>\<open>find_one\<close>, \<^verbatim>\<open>find_one_and_update\<close> and \<^verbatim>\<open>delete_one\<close> act on the first match in
    the store's order. A filter that cannot be encoded makes the call raise. No
    stored record matches such a filter, every stored record having been encoded,
    so where the collection is one the store can hold it makes no difference that
    the definitions below look for a match first.
  \<^item> \<^verbatim>\<open>insert_one\<close> raises on a document that cannot be encoded; otherwise the key is
    a fresh ObjectId unless the document carries \<^verbatim>\<open>_id\<close>; an array as \<^verbatim>\<open>_id\<close> and a key
    already present are refused.
  \<^item> \<^verbatim>\<open>$set\<close> reads every key of its operand as a path of names separated by dots
    and writes the value at that path, creating the objects on the way. A name that
    is empty or starts with \<^verbatim>\<open>$\<close>, two paths of which one is the beginning of the
    other, a path through a value that is neither an object nor an array, and a
    change of the native key are refused.
  Where the versions of the store differ, the definitions follow one of them: a
  field name with a dot or a leading \<^verbatim>\<open>$\<close> can be inserted (as from MongoDB 5), and
  the new fields of one \<^verbatim>\<open>$set\<close> are added in the order of the payload (later
  versions add them in the order of their names). The statements proved below that
  depend on what the store does are about payloads with plain field names and about
  the fields of a record as a map from names to values, where the versions agree.

  Outside the model: values a filter reads as query operators (an object with a key
  that starts with \<^verbatim>\<open>$\<close>, also as a native key), the positional operators of \<^verbatim>\<open>$set\<close>,
  the store's limits on the size and the nesting of a document and on the length of
  an array it fills up, and floating point numbers.
\<close>

fun id_matches :: "json \<Rightarrow> json option \<Rightarrow> bool" where
  "id_matches v None = (v = JNull)"
| "id_matches v (Some x) = (x = v \<or> (case x of JArr xs \<Rightarrow> v \<in> set xs | _ \<Rightarrow> False))"

fun matches :: "filter \<Rightarrow> document \<Rightarrow> bool" where
  "matches Everything d = True"
| "matches (ById v) d = id_matches v (map_of (doc_fields d) ''id'')"
| "matches (ByKey k) d = (doc_id d = k)"

fun filter_error :: "filter \<Rightarrow> exn option" where
  "filter_error Everything = None"
| "filter_error (ById v) = bson_error v"
| "filter_error (ByKey (Oid k)) = None"
| "filter_error (ByKey (Supplied v)) = bson_error v"

fun oids :: "document list \<Rightarrow> objectid list" where
  "oids [] = []"
| "oids (d # ds) = (case doc_id d of Oid n \<Rightarrow> n # oids ds | Supplied v \<Rightarrow> oids ds)"

definition fresh_oid :: "document list \<Rightarrow> objectid" where
  "fresh_oid ds = Suc (foldr max (oids ds) 0)"

fun replace_first :: "('a \<Rightarrow> bool) \<Rightarrow> 'a \<Rightarrow> 'a list \<Rightarrow> 'a list" where
  "replace_first P y [] = []"
| "replace_first P y (x # xs) = (if P x then y # xs else x # replace_first P y xs)"

fun remove_first :: "('a \<Rightarrow> bool) \<Rightarrow> 'a list \<Rightarrow> 'a list" where
  "remove_first P [] = []"
| "remove_first P (x # xs) = (if P x then xs else x # remove_first P xs)"

text \<open>The paths of \<^verbatim>\<open>$set\<close>.\<close>

fun split_dots :: "string \<Rightarrow> string list" where
  "split_dots [] = [[]]"
| "split_dots (c # cs) =
     (if c = CHR ''.'' then [] # split_dots cs
      else case split_dots cs of p # ps \<Rightarrow> (c # p) # ps | [] \<Rightarrow> [[c]])"

definition component_ok :: "string \<Rightarrow> bool" where
  "component_ok c = (c \<noteq> [] \<and> hd c \<noteq> CHR ''$'')"

fun is_prefix :: "'a list \<Rightarrow> 'a list \<Rightarrow> bool" where
  "is_prefix [] ys = True"
| "is_prefix (x # xs) [] = False"
| "is_prefix (x # xs) (y # ys) = (x = y \<and> is_prefix xs ys)"

fun no_conflict :: "string list list \<Rightarrow> bool" where
  "no_conflict [] = True"
| "no_conflict (p # ps) =
     (list_all (\<lambda>q. \<not> is_prefix p q \<and> \<not> is_prefix q p) ps \<and> no_conflict ps)"

definition paths_ok :: "(string \<times> json) list \<Rightarrow> bool" where
  "paths_ok kvs =
     (list_all (\<lambda>(k, v). list_all component_ok (split_dots k)) kvs
      \<and> no_conflict (map (\<lambda>(k, v). split_dots k) kvs))"

text \<open>A name that is a decimal number without leading zeros is an index into an
  array.\<close>

definition array_index :: "string \<Rightarrow> nat option" where
  "array_index c =
     (if c \<noteq> [] \<and> list_all is_decimal_char c \<and> (hd c \<noteq> CHR ''0'' \<or> c = ''0'')
      then Some (foldl (\<lambda>n ch. 10 * n + digit_value ch) 0 c)
      else None)"

fun nest :: "string list \<Rightarrow> json \<Rightarrow> json" where
  "nest [] v = v"
| "nest (c # cs) v = JObj [(c, nest cs v)]"

text \<open>\<open>set_in path v old\<close>: the value \<open>old\<close> with \<open>v\<close> written at \<open>path\<close>.\<close>

fun set_in :: "string list \<Rightarrow> json \<Rightarrow> json \<Rightarrow> exn + json" where
  "set_in [] v old = Inr v"
| "set_in (c # cs) v (JObj fs) =
     (case map_of fs c of
        None \<Rightarrow> Inr (JObj (fs @ [(c, nest cs v)]))
      | Some x \<Rightarrow>
          (case set_in cs v x of
             Inl e \<Rightarrow> Inl e
           | Inr x' \<Rightarrow> Inr (JObj (map (\<lambda>(k, y). if k = c then (k, x') else (k, y)) fs))))"
| "set_in (c # cs) v (JArr xs) =
     (case array_index c of
        None \<Rightarrow> Inl WriteError
      | Some i \<Rightarrow>
          if i < length xs
          then (case set_in cs v (xs ! i) of
                  Inl e \<Rightarrow> Inl e
                | Inr x' \<Rightarrow> Inr (JArr (xs[i := x'])))
          else Inr (JArr (xs @ replicate (i - length xs) JNull @ [nest cs v])))"
| "set_in (c # cs) v JNull = Inl WriteError"
| "set_in (c # cs) v (JBool b) = Inl WriteError"
| "set_in (c # cs) v (JInt n) = Inl WriteError"
| "set_in (c # cs) v (JStr s) = Inl WriteError"

fun set_all :: "(string \<times> json) list \<Rightarrow> json \<Rightarrow> exn + json" where
  "set_all [] doc = Inr doc"
| "set_all ((k, v) # kvs) doc =
     (case set_in (split_dots k) v doc of Inl e \<Rightarrow> Inl e | Inr doc' \<Rightarrow> set_all kvs doc')"

definition without_id :: "(string \<times> json) list \<Rightarrow> (string \<times> json) list" where
  "without_id kvs = filter (\<lambda>(k, v). k \<noteq> ''_id'') kvs"

text \<open>The native key cannot be changed: a path that starts at \<^verbatim>\<open>_id\<close> is refused,
  unless it is \<^verbatim>\<open>_id\<close> itself with the value the record already has as its key.\<close>

definition touches_key :: "document \<Rightarrow> (string \<times> json) list \<Rightarrow> bool" where
  "touches_key d kvs =
     list_ex (\<lambda>(k, v). hd (split_dots k) = ''_id'' \<and> \<not> (k = ''_id'' \<and> doc_id d = Supplied v)) kvs"

definition apply_set :: "(string \<times> json) list \<Rightarrow> document \<Rightarrow> exn + document" where
  "apply_set kvs d =
     (if touches_key d kvs then Inl WriteError
      else case set_all (without_id kvs) (JObj (doc_fields d)) of
             Inl e \<Rightarrow> Inl e
           | Inr doc \<Rightarrow>
               (case doc of JObj fs \<Rightarrow> Inr (d\<lparr>doc_fields := fs\<rparr>) | _ \<Rightarrow> Inl WriteError))"

definition is_array :: "json \<Rightarrow> bool" where
  "is_array v = (case v of JArr xs \<Rightarrow> True | _ \<Rightarrow> False)"

definition count_sem :: "document list \<Rightarrow> exn + nat \<times> document list" where
  "count_sem ds = Inr (length ds, ds)"

definition find_sem :: "filter \<Rightarrow> document list \<Rightarrow> exn + document list \<times> document list" where
  "find_sem f ds = Inr (filter (matches f) ds, ds)"

definition find_one_sem :: "filter \<Rightarrow> document list \<Rightarrow> exn + document option \<times> document list" where
  "find_one_sem f ds =
     (case find (matches f) ds of
        Some d \<Rightarrow> Inr (Some d, ds)
      | None \<Rightarrow> (case filter_error f of Some e \<Rightarrow> Inl e | None \<Rightarrow> Inr (None, ds)))"

definition insert_one_sem :: "(string \<times> json) list \<Rightarrow> document list \<Rightarrow> exn + native_key \<times> document list" where
  "insert_one_sem kvs ds =
     (case bson_error (JObj kvs) of
        Some e \<Rightarrow> Inl e
      | None \<Rightarrow>
          (case map_of kvs ''_id'' of
             None \<Rightarrow>
               Inr (Oid (fresh_oid ds), ds @ [\<lparr>doc_id = Oid (fresh_oid ds), doc_fields = kvs\<rparr>])
           | Some v \<Rightarrow>
               if is_array v then Inl WriteError
               else if Supplied v \<in> doc_id ` set ds then Inl DuplicateKeyError
               else Inr (Supplied v, ds @ [\<lparr>doc_id = Supplied v, doc_fields = without_id kvs\<rparr>])))"

definition update_sem :: "filter \<Rightarrow> json \<Rightarrow> document list \<Rightarrow> exn + document option \<times> document list" where
  "update_sem f upd ds =
     (case bson_error upd of
        Some e \<Rightarrow> Inl e
      | None \<Rightarrow>
          (case upd of
             JObj kvs \<Rightarrow>
               if \<not> paths_ok kvs then Inl WriteError
               else
                 (case find (matches f) ds of
                    None \<Rightarrow>
                      (case filter_error f of Some e \<Rightarrow> Inl e | None \<Rightarrow> Inr (None, ds))
                  | Some d \<Rightarrow>
                      (case apply_set kvs d of
                         Inl e \<Rightarrow> Inl e
                       | Inr d' \<Rightarrow> Inr (Some d', replace_first (matches f) d' ds)))
           | _ \<Rightarrow> Inl OperationFailure))"

definition delete_sem :: "filter \<Rightarrow> document list \<Rightarrow> exn + nat \<times> document list" where
  "delete_sem f ds =
     (case find (matches f) ds of
        Some d \<Rightarrow> Inr (1, remove_first (matches f) ds)
      | None \<Rightarrow> (case filter_error f of Some e \<Rightarrow> Inl e | None \<Rightarrow> Inr (0, ds)))"

text \<open>One store call: the planned outage, or else the store's answer; the call is
  added to the trace either way.\<close>

definition store_op :: "call \<Rightarrow> (document list \<Rightarrow> exn + 'a \<times> document list) \<Rightarrow> 'a action" where
  "store_op c sem w =
     (case (case outages w of Some e # rest \<Rightarrow> Inl e | _ \<Rightarrow> sem (docs w)) of
        Inl e \<Rightarrow> (Inl e, w\<lparr>outages := tl (outages w), trace := trace w @ [(c, Some e)]\<rparr>)
      | Inr (x, ds) \<Rightarrow>
          (Inr x, w\<lparr>docs := ds, outages := tl (outages w), trace := trace w @ [(c, None)]\<rparr>))"

definition count_documents :: "filter \<Rightarrow> nat action" where
  "count_documents f = store_op (CountDocuments f) count_sem"

definition find_all :: "filter \<Rightarrow> document list action" where
  "find_all f = store_op (Find f) (find_sem f)"

definition find_one :: "filter \<Rightarrow> document option action" where
  "find_one f = store_op (FindOne f) (find_one_sem f)"

text \<open>\<^verbatim>\<open>insert_one\<close> refuses, before it calls the store, anything that is not a
  dict; its result is the \<^verbatim>\<open>inserted_id\<close>.\<close>

definition insert_one :: "json \<Rightarrow> native_key action" where
  "insert_one song =
     (case song of
        JObj kvs \<Rightarrow> store_op (InsertOne song) (insert_one_sem kvs)
      | _ \<Rightarrow> lift (Inl TypeError))"

text \<open>\<^verbatim>\<open>find_one_and_update(filter, {"$set": upd}, return_document=AFTER)\<close>.\<close>

definition find_one_and_update :: "filter \<Rightarrow> json \<Rightarrow> document option action" where
  "find_one_and_update f upd = store_op (FindOneAndUpdate f upd) (update_sem f upd)"

text \<open>\<^verbatim>\<open>delete_one\<close>; its result is the \<^verbatim>\<open>deleted_count\<close>.\<close>

definition delete_one :: "filter \<Rightarrow> nat action" where
  "delete_one f = store_op (DeleteOne f) (delete_sem f)"

subsection \<open>Requests and responses\<close>

datatype http_method = GET | POST | PUT | DELETE | HEAD

record request =
  request_method :: http_method
  get_json :: json

datatype http_status =
  OK | CREATED | NO_CONTENT | FOUND | BAD_REQUEST | NOT_FOUND | INTERNAL_SERVER_ERROR

fun status_code :: "http_status \<Rightarrow> nat" where
  "status_code OK = 200"
| "status_code CREATED = 201"
| "status_code NO_CONTENT = 204"
| "status_code FOUND = 302"
| "status_code BAD_REQUEST = 400"
| "status_code NOT_FOUND = 404"
| "status_code INTERNAL_SERVER_ERROR = 500"

datatype body = Text string | Json json

type_synonym response = "body \<times> http_status"

definition jsonify :: "json \<Rightarrow> body" where
  "jsonify j = Json j"

text \<open>A handler's result is \<open>Inr\<close> of its response, or \<open>Inl e\<close> when the exception
  \<open>e\<close> leaves the handler uncaught.\<close>

type_synonym handler = "response action"

subsection \<open>The routes\<close>

definition count_songs :: handler where
  "count_songs =
     try_except
       (then_do (count_documents Everything) (\<lambda>count.
          succeed (jsonify (JObj [(''count'', JInt (int count))]), OK)))
       (\<lambda>e. then_do (logger_error ''Error counting songs: '' e) (\<lambda>_.
          succeed (jsonify (JObj [(''error'', JStr ''Internal server error'')]), INTERNAL_SERVER_ERROR)))"

definition get_all_songs :: handler where
  "get_all_songs =
     try_except
       (then_do (find_all Everything) (\<lambda>songs.
          succeed (jsonify (JObj [(''songs'', parse_json_list songs)]), OK)))
       (\<lambda>e. then_do (logger_error ''Error fetching songs: '' e) (\<lambda>_.
          succeed (jsonify (JObj [(''error'', JStr ''Internal server error'')]), INTERNAL_SERVER_ERROR)))"

text \<open>Lines 106 to 108 of \<^verbatim>\<open>create_song\<close>: insert, read the new document back, answer.\<close>

definition insert_and_fetch :: "json \<Rightarrow> handler" where
  "insert_and_fetch song =
     then_do (insert_one song) (\<lambda>inserted_id.
     then_do (find_one (ByKey inserted_id)) (\<lambda>new_song.
       succeed (jsonify (parse_json_opt new_song), CREATED)))"

definition create_song :: "request \<Rightarrow> handler" where
  "create_song req =
     try_except
       (if \<not> truthy (get_json req)
        then succeed (jsonify (JObj [(''error'', JStr ''No input data provided'')]), BAD_REQUEST)
        else
          then_do (lift (py_in ''id'' (get_json req))) (\<lambda>has_id.
            if has_id then
              then_do (lift (getitem (get_json req) ''id'')) (\<lambda>song_id.
              then_do (find_one (ById song_id)) (\<lambda>existing_song.
                if existing_song \<noteq> None
                then succeed
                  (jsonify (JObj [(''Message'',
                      JStr (''song with id '' @ py_str song_id @ '' already present''))]),
                   FOUND)
                else insert_and_fetch (get_json req)))
            else insert_and_fetch (get_json req)))
       (\<lambda>e. then_do (logger_error ''Error creating song: '' e) (\<lambda>_.
          succeed (jsonify (JObj [(''error'', JStr ''Failed to create song'')]), INTERNAL_SERVER_ERROR)))"

definition handle_songs :: "request \<Rightarrow> handler" where
  "handle_songs req = (if request_method req = POST then create_song req else get_all_songs)"

definition handle_song :: "request \<Rightarrow> int \<Rightarrow> handler" where
  "handle_song req ident =
     (if request_method req = PUT then
        try_except
          (if \<not> truthy (get_json req)
           then succeed (jsonify (JObj [(''error'', JStr ''No input data provided'')]), BAD_REQUEST)
           else
             then_do (find_one_and_update (ById (JInt ident)) (get_json req)) (\<lambda>updated_song.
               case updated_song of
                 None \<Rightarrow> succeed (jsonify (JObj [(''message'', JStr ''song not found'')]), NOT_FOUND)
               | Some d \<Rightarrow> succeed (jsonify (parse_json d), CREATED)))
          (\<lambda>e. then_do (logger_error ''Error updating song: '' e) (\<lambda>_.
             succeed (jsonify (JObj [(''error'', JStr ''Failed to update song'')]), INTERNAL_SERVER_ERROR)))
      else if request_method req = DELETE then
        try_except
          (then_do (delete_one (ById (JInt ident))) (\<lambda>deleted_count.
             if deleted_count = 0
             then succeed (jsonify (JObj [(''message'', JStr ''song not found'')]), NOT_FOUND)
             else succeed (Text [], NO_CONTENT)))
          (\<lambda>e. then_do (logger_error ''Error deleting song: '' e) (\<lambda>_.
             succeed (jsonify (JObj [(''error'', JStr ''Failed to delete song'')]), INTERNAL_SERVER_ERROR)))
      else
        then_do (find_one (ById (JInt ident))) (\<lambda>song.
          case song of
            Some d \<Rightarrow> succeed (jsonify (parse_json d), OK)
          | None \<Rightarrow> succeed (jsonify (JObj [(''message'', JStr ''song not found'')]), NOT_FOUND)))"

definition get_songs :: handler where
  "get_songs =
     try_except
       (then_do (find_all Everything) (\<lambda>songs.
          succeed (jsonify (parse_json_list songs), OK)))
       (\<lambda>e. then_do (logger_error ''Error fetching songs: '' e) (\<lambda>_.
          succeed (jsonify (JObj [(''error'', JStr ''Internal server error'')]), INTERNAL_SERVER_ERROR)))"

definition get_song :: "string \<Rightarrow> handler" where
  "get_song ident =
     try_except
       (then_do
          (if isdigit ident
           then then_do (lift (py_int ident)) (\<lambda>n. find_one (ById (JInt n)))
           else try_except
                  (then_do (lift (ObjectId ident)) (\<lambda>oid. find_one (ByKey (Oid oid))))
                  (\<lambda>e. succeed None))
          (\<lambda>song.
             case song of
               Some d \<Rightarrow> succeed (jsonify (parse_json d), OK)
             | None \<Rightarrow> succeed (jsonify (JObj [(''message'', JStr ''Song not found'')]), NOT_FOUND)))
       (\<lambda>e. then_do (logger_error (''Invalid song ID: '' @ ident @ '', error: '') e) (\<lambda>_.
          succeed (jsonify (JObj [(''error'', JStr ''Invalid song ID'')]), BAD_REQUEST)))"

definition create_song_legacy :: "request \<Rightarrow> handler" where
  "create_song_legacy req = create_song req"

text \<open>In \<^verbatim>\<open>update_song_legacy\<close> the inner \<^verbatim>\<open>except\<close> clause returns from the handler:
  the inner block yields \<open>Inl\<close> of that response, or \<open>Inr\<close> of the updated song.\<close>

definition update_song_legacy :: "request \<Rightarrow> string \<Rightarrow> handler" where
  "update_song_legacy req ident =
     try_except
       (if \<not> truthy (get_json req)
        then succeed (jsonify (JObj [(''error'', JStr ''No input data provided'')]), BAD_REQUEST)
        else
          then_do
            (if isdigit ident
             then then_do (lift (py_int ident)) (\<lambda>n.
                  then_do (find_one_and_update (ById (JInt n)) (get_json req)) (\<lambda>updated_song.
                    succeed (Inr updated_song)))
             else try_except
                    (then_do (lift (ObjectId ident)) (\<lambda>oid.
                     then_do (find_one_and_update (ByKey (Oid oid)) (get_json req)) (\<lambda>updated_song.
                       succeed (Inr updated_song))))
                    (\<lambda>e. succeed
                       (Inl (jsonify (JObj [(''error'', JStr ''Invalid song ID format'')]), BAD_REQUEST))))
            (\<lambda>r. case r of
               Inl returned \<Rightarrow> succeed returned
             | Inr None \<Rightarrow> succeed (jsonify (JObj [(''message'', JStr ''song not found'')]), NOT_FOUND)
             | Inr (Some d) \<Rightarrow> succeed (jsonify (parse_json d), CREATED)))
       (\<lambda>e. then_do (logger_error ''Error updating song: '' e) (\<lambda>_.
          succeed (jsonify (JObj [(''error'', JStr ''Failed to update song'')]), INTERNAL_SERVER_ERROR)))"

text \<open>In \<^verbatim>\<open>delete_song_legacy\<close> the result is \<^verbatim>\<open>None\<close> when the inner block raised,
  and the \<^verbatim>\<open>deleted_count\<close> otherwise.\<close>

definition delete_song_legacy :: "string \<Rightarrow> handler" where
  "delete_song_legacy ident =
     try_except
       (then_do
          (if isdigit ident
           then then_do (lift (py_int ident)) (\<lambda>n.
                then_do (delete_one (ById (JInt n))) (\<lambda>deleted_count. succeed (Some deleted_count)))
           else try_except
                  (then_do (lift (ObjectId ident)) (\<lambda>oid.
                   then_do (delete_one (ByKey (Oid oid))) (\<lambda>deleted_count. succeed (Some deleted_count))))
                  (\<lambda>e. succeed None))
          (\<lambda>result.
             if result = None \<or> result = Some 0
             then succeed (jsonify (JObj [(''message'', JStr ''Song not found'')]), NOT_FOUND)
             else succeed (Text [], NO_CONTENT)))
       (\<lambda>e. then_do (logger_error ''Error deleting song: '' e) (\<lambda>_.
          succeed (jsonify (JObj [(''error'', JStr ''Failed to delete song'')]), INTERNAL_SERVER_ERROR)))"

subsection \<open>Sample requests and collections\<close>

definition no_songs :: world where
  "no_songs = \<lparr>docs = [], outages = [], trace = [], log = []\<rparr>"

definition song7 :: document where
  "song7 = \<lparr>doc_id = Oid 1,
             doc_fields = [(''id'', JInt 7), (''title'', JStr ''A''), (''artist'', JStr ''B'')]\<rparr>"

definition one_song :: world where
  "one_song = \<lparr>docs = [song7], outages = [], trace = [], log = []\<rparr>"

definition get_request :: request where
  "get_request = \<lparr>request_method = GET, get_json = JNull\<rparr>"

definition delete_request :: request where
  "delete_request = \<lparr>request_method = DELETE, get_json = JNull\<rparr>"

definition post_request :: "json \<Rightarrow> request" where
  "post_request j = \<lparr>request_method = POST, get_json = j\<rparr>"

definition put_request :: "json \<Rightarrow> request" where
  "put_request j = \<lparr>request_method = PUT, get_json = j\<rparr>"

text \<open>A collection with one record whose store fails at the next call.\<close>

definition store_down :: world where
  "store_down = \<lparr>docs = [song7], outages = [Some (PyMongoError ''down'')], trace = [], log = []\<rparr>"

text \<open>The same create request sent \<open>m\<close> times in a row.\<close>

fun create_times :: "nat \<Rightarrow> request \<Rightarrow> world \<Rightarrow> world" where
  "create_times 0 req w = w"
| "create_times (Suc m) req w = snd (create_song req (create_times m req w))"

text \<open>The collection after three requests to an empty one: create a song with \<^verbatim>\<open>id\<close>
  1, create a song with \<^verbatim>\<open>id\<close> 2, then \<^verbatim>\<open>PUT /song/1\<close> with the body \<^verbatim>\<open>{"id": 2}\<close>.\<close>

definition same_id_twice :: world where
  "same_id_twice =
     snd (handle_song (put_request (JObj [(''id'', JInt 2)])) 1
       (snd (create_song (post_request (JObj [(''id'', JInt 2)]))
         (snd (create_song (post_request (JObj [(''id'', JInt 1)])) no_songs)))))"

text \<open>The collection after \<^verbatim>\<open>POST /song\<close> with the body \<^verbatim>\<open>{"id": [7]}\<close> to an empty
  one.\<close>

definition array_id :: world where
  "array_id = snd (create_song (post_request (JObj [(''id'', JArr [JInt 7])])) no_songs)"

text \<open>The collection after \<^verbatim>\<open>POST /song\<close> with the body
  \<^verbatim>\<open>{"_id": "a", "title": "A"}\<close> to an empty one.\<close>

definition own_key :: world where
  "own_key =
     snd (create_song (post_request (JObj [(''_id'', JStr ''a''), (''title'', JStr ''A'')])) no_songs)"

text \<open>A collection whose one record has the native key \<^verbatim>\<open>0000000000000000000000ab\<close>.\<close>

definition song_ab :: document where
  "song_ab = \<lparr>doc_id = Oid 171, doc_fields = [(''id'', JInt 3), (''title'', JStr ''D'')]\<rparr>"

definition lettered_key :: world where
  "lettered_key = \<lparr>docs = [song_ab], outages = [], trace = [], log = []\<rparr>"

subsection \<open>Auxiliary notions\<close>

text \<open>A path segment without white space (tab, line feed, vertical tab, form feed,
  carriage return, space).\<close>

definition spaceless :: "string \<Rightarrow> bool" where
  "spaceless s = list_all (\<lambda>c. c \<notin> set [CHR 0x09, CHR 0x0A, CHR 0x0B, CHR 0x0C, CHR 0x0D, CHR 0x20]) s"

text \<open>
  A plain field name is not empty, does not start with \<^verbatim>\<open>$\<close> and contains neither a
  dot nor NUL. A value is storable when all its integers fit in 64 bits and all the
  keys of its objects are plain: the driver and every version of the store take such
  a value as it is (the limits on size and nesting apart).
\<close>

definition plain_key :: "string \<Rightarrow> bool" where
  "plain_key k = (k \<noteq> [] \<and> hd k \<noteq> CHR ''$'' \<and> CHR ''.'' \<notin> set k \<and> CHR 0x00 \<notin> set k)"

fun storable :: "json \<Rightarrow> bool"
  and storable_items :: "json list \<Rightarrow> bool"
  and storable_pairs :: "(string \<times> json) list \<Rightarrow> bool" where
  "storable JNull = True"
| "storable (JBool b) = True"
| "storable (JInt n) = bson_int n"
| "storable (JStr s) = True"
| "storable (JArr xs) = storable_items xs"
| "storable (JObj kvs) = storable_pairs kvs"
| "storable_items [] = True"
| "storable_items (x # xs) = (storable x \<and> storable_items xs)"
| "storable_pairs [] = True"
| "storable_pairs ((k, v) # kvs) = (plain_key k \<and> storable v \<and> storable_pairs kvs)"

text \<open>What the get and delete routes answer, given what the store found or how
  many records it deleted; \<open>msg\<close> is the route's not-found message.\<close>

definition lookup_reply :: "string \<Rightarrow> document option \<Rightarrow> response" where
  "lookup_reply msg r =
     (case r of
        Some d \<Rightarrow> (Json (parse_json d), OK)
      | None \<Rightarrow> (Json (JObj [(''message'', JStr msg)]), NOT_FOUND))"

definition delete_reply :: "string \<Rightarrow> nat \<Rightarrow> response" where
  "delete_reply msg deleted_count =
     (if deleted_count = 0 then (Json (JObj [(''message'', JStr msg)]), NOT_FOUND)
      else (Text [], NO_CONTENT))"

text \<open>What the update routes answer, given what the store returned for the
  update (lines 128 to 135 of \<^verbatim>\<open>handle_song\<close>).\<close>

definition update_reply :: "exn + document option \<times> document list \<Rightarrow> exn + response" where
  "update_reply r =
     Inr (case r of
        Inl e \<Rightarrow> (Json (JObj [(''error'', JStr ''Failed to update song'')]), INTERNAL_SERVER_ERROR)
      | Inr (None, ds) \<Rightarrow> (Json (JObj [(''message'', JStr ''song not found'')]), NOT_FOUND)
      | Inr (Some d, ds) \<Rightarrow> (Json (parse_json d), CREATED))"

text \<open>\<open>store_failed w w'\<close>: one of the store calls made between \<open>w\<close> and \<open>w'\<close>
  raised.\<close>

definition store_failed :: "world \<Rightarrow> world \<Rightarrow> bool" where
  "store_failed w w' = list_ex (\<lambda>(c, r). r \<noteq> None) (drop (length (trace w)) (trace w'))"

text \<open>An action is careful when it logs nothing itself and, whenever one of its
  store calls raised, raises too (it absorbs no store failure).\<close>

definition careful :: "'a action \<Rightarrow> bool" where
  "careful m =
     (\<forall>w r w'. m w = (r, w') \<longrightarrow>
        (\<exists>es. trace w' = trace w @ es \<and> log w' = log w
           \<and> (list_ex (\<lambda>(c, r). r \<noteq> None) es \<longrightarrow> (\<exists>e. r = Inl e))))"

section \<open>Facts about the store operations\<close>

lemmas action_defs = succeed_def lift_def then_do_def try_except_def logger_error_def

lemmas sample_defs = no_songs_def song7_def one_song_def get_request_def delete_request_def
  post_request_def put_request_def

lemma store_op_up:
  "outages w = [] \<Longrightarrow>
   store_op c sem w =
     (case sem (docs w) of
        Inl e \<Rightarrow> (Inl e, w\<lparr>trace := trace w @ [(c, Some e)]\<rparr>)
      | Inr (x, ds) \<Rightarrow> (Inr x, w\<lparr>docs := ds, trace := trace w @ [(c, None)]\<rparr>))"
  by (simp add: store_op_def split: sum.splits prod.splits)

lemma find_matching:
  "d \<in> set ds \<Longrightarrow> P d \<Longrightarrow> \<exists>x. find P ds = Some x \<and> P x"
  by (induction ds) auto

lemma find_none: "(\<forall>x\<in>set ds. \<not> P x) \<Longrightarrow> find P ds = None"
  by (induction ds) auto

lemma find_split:
  "(\<forall>x\<in>set before. \<not> P x) \<Longrightarrow> P d \<Longrightarrow> find P (before @ d # after) = Some d"
  by (induction before) auto

lemma replace_first_split:
  "(\<forall>x\<in>set before. \<not> P x) \<Longrightarrow> P d \<Longrightarrow>
   replace_first P y (before @ d # after) = before @ y # after"
  by (induction before) auto

lemma remove_first_split:
  "(\<forall>x\<in>set before. \<not> P x) \<Longrightarrow> P d \<Longrightarrow>
   remove_first P (before @ d # after) = before @ after"
  by (induction before) auto

lemma oids_le: "Oid n \<in> doc_id ` set ds \<Longrightarrow> n \<le> foldr max (oids ds) 0"
  by (induction ds) (auto split: native_key.splits)

lemma fresh_oid_new: "Oid (fresh_oid ds) \<notin> doc_id ` set ds"
  using oids_le [of "fresh_oid ds" ds] by (auto simp: fresh_oid_def)

lemma find_appended:
  "(\<forall>x\<in>set ds. \<not> P x) \<Longrightarrow> P d \<Longrightarrow> find P (ds @ [d]) = Some d"
  using find_split [of ds P d "[]"] by simp

lemma find_unmatched_appended: "\<not> P d \<Longrightarrow> find P (ds @ [d]) = find P ds"
  by (induction ds) auto

lemma without_id_same: "''_id'' \<notin> fst ` set kvs \<Longrightarrow> without_id kvs = kvs"
  by (induction kvs) (auto simp: without_id_def)

lemma matches_same_id: "map_of (doc_fields d) ''id'' = Some n \<Longrightarrow> matches (ById n) d"
  by simp

lemma storable_encodes:
  "storable v \<Longrightarrow> bson_error v = None"
  "storable_items xs \<Longrightarrow> bson_error_items xs = None"
  "storable_pairs kvs \<Longrightarrow> bson_error_pairs kvs = None"
  by (induction v and xs and kvs rule: storable_storable_items_storable_pairs.induct)
    (simp_all add: plain_key_def)

lemma storable_plain_keys: "storable_pairs kvs \<Longrightarrow> list_all plain_key (map fst kvs)"
  by (induction kvs) auto

lemma split_dots_plain: "CHR ''.'' \<notin> set k \<Longrightarrow> split_dots k = [k]"
  by (induction k) auto

lemma plain_key_path: "plain_key k \<Longrightarrow> split_dots k = [k] \<and> component_ok k"
  by (simp add: plain_key_def split_dots_plain component_ok_def)

lemma no_conflict_plain:
  "list_all plain_key ks \<Longrightarrow> distinct ks \<Longrightarrow> no_conflict (map split_dots ks)"
proof (induction ks)
  case Nil
  show ?case by simp
next
  case (Cons k ks)
  have "\<not> is_prefix (split_dots k) (split_dots q) \<and> \<not> is_prefix (split_dots q) (split_dots k)"
    if "q \<in> set ks" for q
  proof -
    have "plain_key q" "q \<noteq> k" using that Cons.prems by (auto simp: list_all_iff)
    then show ?thesis using Cons.prems(1) by (auto simp: plain_key_path)
  qed
  then show ?case using Cons by (simp add: list_all_iff)
qed

lemma paths_ok_plain:
  assumes "list_all plain_key (map fst kvs)" and "distinct (map fst kvs)"
  shows "paths_ok kvs"
proof -
  have "list_all (\<lambda>(k, v). list_all component_ok (split_dots k)) kvs"
    using assms(1) by (auto simp: list_all_iff plain_key_path)
  moreover have "map (\<lambda>(k, v). split_dots k) kvs = map split_dots (map fst kvs)"
    by (induction kvs) auto
  ultimately show ?thesis
    unfolding paths_ok_def using no_conflict_plain [OF assms] by metis
qed

lemma map_of_replaced:
  "map_of (map (\<lambda>(k', y). if k' = k then (k', v) else (k', y)) fs) name =
     (if name = k then (case map_of fs k of None \<Rightarrow> None | Some y \<Rightarrow> Some v)
      else map_of fs name)"
  by (induction fs) auto

lemma set_in_single:
  "\<exists>fs'. set_in [k] v (JObj fs) = Inr (JObj fs')
         \<and> (\<forall>name. map_of fs' name = (if name = k then Some v else map_of fs name))"
proof (cases "map_of fs k")
  case None
  then have "k \<notin> fst ` set fs" by (simp add: map_of_eq_None_iff)
  then show ?thesis using None by (auto simp: map_add_def split: option.splits)
next
  case (Some x)
  then show ?thesis by (simp add: map_of_replaced)
qed

lemma set_all_plain:
  assumes "list_all plain_key (map fst kvs)" and "distinct (map fst kvs)"
  shows "\<exists>fs'. set_all kvs (JObj fs) = Inr (JObj fs')
           \<and> (\<forall>name. map_of fs' name =
                 (case map_of kvs name of Some v \<Rightarrow> Some v | None \<Rightarrow> map_of fs name))"
  using assms
proof (induction kvs arbitrary: fs)
  case Nil
  show ?case by simp
next
  case (Cons kv kvs)
  obtain k v where kv: "kv = (k, v)" by (cases kv)
  have path: "split_dots k = [k]" using Cons.prems(1) kv by (simp add: plain_key_path)
  obtain fs1 where fs1: "set_in [k] v (JObj fs) = Inr (JObj fs1)"
    "\<forall>name. map_of fs1 name = (if name = k then Some v else map_of fs name)"
    using set_in_single by blast
  have "list_all plain_key (map fst kvs)" "distinct (map fst kvs)"
    using Cons.prems by simp_all
  from Cons.IH [OF this, of fs1] obtain fs' where fs': "set_all kvs (JObj fs1) = Inr (JObj fs')"
    "\<forall>name. map_of fs' name =
       (case map_of kvs name of Some v \<Rightarrow> Some v | None \<Rightarrow> map_of fs1 name)"
    by blast
  have fresh: "map_of kvs k = None"
    using Cons.prems(2) kv by (simp add: map_of_eq_None_iff)
  have "set_all (kv # kvs) (JObj fs) = Inr (JObj fs')"
    using kv path fs1(1) fs'(1) by simp
  moreover have "map_of fs' name =
      (case map_of (kv # kvs) name of Some v \<Rightarrow> Some v | None \<Rightarrow> map_of fs name)" for name
    using fs'(2) fs1(2) fresh kv by (auto split: option.splits)
  ultimately show ?case by blast
qed

lemma apply_set_plain:
  assumes "list_all plain_key (map fst kvs)" and "distinct (map fst kvs)"
    and "''_id'' \<notin> fst ` set kvs"
  shows "\<exists>d'. apply_set kvs d = Inr d' \<and> doc_id d' = doc_id d
           \<and> (\<forall>name. map_of (doc_fields d') name =
                 (case map_of kvs name of Some v \<Rightarrow> Some v | None \<Rightarrow> map_of (doc_fields d) name))"
proof -
  have "hd (split_dots k) \<noteq> ''_id''" if "(k, v) \<in> set kvs" for k v
  proof -
    have "plain_key k" "k \<noteq> ''_id''" using that assms(1,3) by (force simp: list_all_iff)+
    then show ?thesis by (simp add: plain_key_path)
  qed
  then have untouched: "\<not> touches_key d kvs"
    by (auto simp: touches_key_def list_ex_iff)
  obtain fs' where fs': "set_all kvs (JObj (doc_fields d)) = Inr (JObj fs')"
    "\<forall>name. map_of fs' name =
       (case map_of kvs name of Some v \<Rightarrow> Some v | None \<Rightarrow> map_of (doc_fields d) name)"
    using set_all_plain [OF assms(1,2)] by blast
  have "apply_set kvs d = Inr (d\<lparr>doc_fields := fs'\<rparr>)"
    using untouched fs'(1) by (simp add: apply_set_def without_id_same [OF assms(3)])
  then show ?thesis using fs'(2) by (intro exI [of _ "d\<lparr>doc_fields := fs'\<rparr>"]) simp
qed

lemma update_sem_split:
  assumes "\<forall>x\<in>set before. \<not> matches f x" and "matches f d"
    and "storable (JObj kvs)" and "distinct (map fst kvs)" and "''_id'' \<notin> fst ` set kvs"
  shows "\<exists>d'. update_sem f (JObj kvs) (before @ d # after) = Inr (Some d', before @ d' # after)
           \<and> doc_id d' = doc_id d
           \<and> (\<forall>name. map_of (doc_fields d') name =
                 (case map_of kvs name of Some v \<Rightarrow> Some v | None \<Rightarrow> map_of (doc_fields d) name))"
proof -
  have plain: "list_all plain_key (map fst kvs)" using assms(3) by (simp add: storable_plain_keys)
  have enc: "bson_error (JObj kvs) = None" using assms(3) by (rule storable_encodes(1))
  obtain d' where d': "apply_set kvs d = Inr d'" "doc_id d' = doc_id d"
    "\<forall>name. map_of (doc_fields d') name =
       (case map_of kvs name of Some v \<Rightarrow> Some v | None \<Rightarrow> map_of (doc_fields d) name)"
    using apply_set_plain [OF plain assms(4,5)] by blast
  have "update_sem f (JObj kvs) (before @ d # after) = Inr (Some d', before @ d' # after)"
    using enc paths_ok_plain [OF plain assms(4)] d'(1)
      find_split [OF assms(1,2)] replace_first_split [OF assms(1,2)]
    by (simp add: update_sem_def)
  then show ?thesis using d'(2,3) by blast
qed

lemma update_sem_none:
  assumes "\<forall>x\<in>set ds. \<not> matches f x" and "filter_error f = None"
    and "storable (JObj kvs)" and "distinct (map fst kvs)"
  shows "update_sem f (JObj kvs) ds = Inr (None, ds)"
proof -
  have plain: "list_all plain_key (map fst kvs)" using assms(3) by (simp add: storable_plain_keys)
  have enc: "bson_error (JObj kvs) = None" using assms(3) by (rule storable_encodes(1))
  show ?thesis
    using enc paths_ok_plain [OF plain assms(4)] find_none [OF assms(1)] assms(2)
    by (simp add: update_sem_def)
qed

lemma find_one_sem_encoded:
  "filter_error f = None \<Longrightarrow> find_one_sem f ds = Inr (find (matches f) ds, ds)"
  by (simp add: find_one_sem_def split: option.splits)

lemma delete_sem_encoded:
  "filter_error f = None \<Longrightarrow>
   delete_sem f ds =
     (case find (matches f) ds of
        None \<Rightarrow> Inr (0, ds)
      | Some d \<Rightarrow> Inr (1, remove_first (matches f) ds))"
  by (simp add: delete_sem_def split: option.splits)

lemma filter_error_int: "bson_int n \<Longrightarrow> filter_error (ById (JInt n)) = None"
  by simp

lemma find_one_sem_unmatched:
  "\<not> matches f x \<Longrightarrow>
   map_sum id fst (find_one_sem f (ds @ [x])) = map_sum id fst (find_one_sem f ds)"
  by (simp add: find_one_sem_def find_unmatched_appended split: option.splits)

lemma delete_sem_unmatched:
  "\<not> matches f x \<Longrightarrow>
   map_sum id fst (delete_sem f (ds @ [x])) = map_sum id fst (delete_sem f ds)"
  by (simp add: delete_sem_def find_unmatched_appended split: option.splits)

lemma update_reply_unmatched:
  assumes "\<not> matches f x"
  shows "update_reply (update_sem f upd (ds @ [x])) = update_reply (update_sem f upd ds)"
proof -
  have same: "find (matches f) (ds @ [x]) = find (matches f) ds"
    using assms by (rule find_unmatched_appended)
  show ?thesis
  proof (cases "bson_error upd")
    case (Some e)
    then show ?thesis by (simp add: update_sem_def)
  next
    case None
    show ?thesis
    proof (cases upd)
      case (JObj kvs)
      show ?thesis
      proof (cases "paths_ok kvs")
        case False
        then show ?thesis using None JObj by (simp add: update_sem_def)
      next
        case True
        show ?thesis
        proof (cases "find (matches f) ds")
          case absent: None
          then show ?thesis using None JObj True same
            by (cases "filter_error f") (simp_all add: update_sem_def update_reply_def)
        next
          case (Some d)
          then show ?thesis using None JObj True same
            by (cases "apply_set kvs d") (simp_all add: update_sem_def update_reply_def)
        qed
      qed
    qed (use None in \<open>simp_all add: update_sem_def update_reply_def\<close>)
  qed
qed

section \<open>The routes while the store answers\<close>

lemmas route_defs = create_song_def insert_and_fetch_def handle_song_def handle_songs_def
  get_song_def get_songs_def get_all_songs_def count_songs_def update_song_legacy_def
  delete_song_legacy_def create_song_legacy_def

lemmas store_defs = store_op_def count_documents_def find_all_def find_one_def insert_one_def
  find_one_and_update_def delete_one_def count_sem_def find_sem_def find_one_sem_def
  insert_one_sem_def update_sem_def delete_sem_def without_id_def fresh_oid_def bson_int_def
  paths_ok_def component_ok_def touches_key_def apply_set_def is_array_def

lemma py_int_isdigit: "py_int s = Inr n \<Longrightarrow> isdigit s"
  by (auto simp: py_int_def isdigit_def is_digit_char_def list_all_iff split: if_splits)

lemma storable_field: "storable_pairs kvs \<Longrightarrow> map_of kvs k = Some v \<Longrightarrow> storable v"
  by (induction kvs) (auto split: if_splits)

lemma handle_song_get_sem:
  assumes "outages w = []" and "request_method req \<noteq> PUT" and "request_method req \<noteq> DELETE"
  shows "fst (handle_song req n w) =
           (case map_sum id fst (find_one_sem (ById (JInt n)) (docs w)) of
              Inl e \<Rightarrow> Inl e
            | Inr r \<Rightarrow> Inr (lookup_reply ''song not found'' r))"
    and "docs (snd (handle_song req n w)) = docs w"
    and "outages (snd (handle_song req n w)) = []"
  using assms
  by (simp_all add: handle_song_def action_defs find_one_def find_one_sem_def store_op_up
      jsonify_def lookup_reply_def split: option.splits)

lemma get_song_digits_sem:
  assumes "outages w = []" and "py_int s = Inr n"
  shows "fst (get_song s w) =
           Inr (case map_sum id fst (find_one_sem (ById (JInt n)) (docs w)) of
                  Inl e \<Rightarrow> (Json (JObj [(''error'', JStr ''Invalid song ID'')]), BAD_REQUEST)
                | Inr r \<Rightarrow> lookup_reply ''Song not found'' r)"
    and "docs (snd (get_song s w)) = docs w"
    and "outages (snd (get_song s w)) = []"
  using assms py_int_isdigit [OF assms(2)]
  by (simp_all add: get_song_def action_defs find_one_def find_one_sem_def store_op_up
      jsonify_def lookup_reply_def split: option.splits)

lemma handle_song_delete_sem:
  assumes "outages w = []" and "request_method req = DELETE"
  shows "fst (handle_song req n w) =
           Inr (case map_sum id fst (delete_sem (ById (JInt n)) (docs w)) of
                  Inl e \<Rightarrow> (Json (JObj [(''error'', JStr ''Failed to delete song'')]),
                             INTERNAL_SERVER_ERROR)
                | Inr c \<Rightarrow> delete_reply ''song not found'' c)"
    and "docs (snd (handle_song req n w)) =
           (case delete_sem (ById (JInt n)) (docs w) of Inl e \<Rightarrow> docs w | Inr (c, ds) \<Rightarrow> ds)"
    and "outages (snd (handle_song req n w)) = []"
  using assms
  by (simp_all add: handle_song_def action_defs delete_one_def delete_sem_def store_op_up
      jsonify_def delete_reply_def split: option.splits)

lemma delete_song_legacy_digits_sem:
  assumes "outages w = []" and "py_int s = Inr n"
  shows "fst (delete_song_legacy s w) =
           Inr (case map_sum id fst (delete_sem (ById (JInt n)) (docs w)) of
                  Inl e \<Rightarrow> (Json (JObj [(''error'', JStr ''Failed to delete song'')]),
                             INTERNAL_SERVER_ERROR)
                | Inr c \<Rightarrow> delete_reply ''Song not found'' c)"
    and "docs (snd (delete_song_legacy s w)) =
           (case delete_sem (ById (JInt n)) (docs w) of Inl e \<Rightarrow> docs w | Inr (c, ds) \<Rightarrow> ds)"
    and "outages (snd (delete_song_legacy s w)) = []"
  using assms py_int_isdigit [OF assms(2)]
  by (simp_all add: delete_song_legacy_def action_defs delete_one_def delete_sem_def store_op_up
      jsonify_def delete_reply_def split: option.splits)

lemma handle_song_get_up:
  assumes "outages w = []" and "request_method req \<noteq> PUT" and "request_method req \<noteq> DELETE"
    and "bson_int n"
  shows "fst (handle_song req n w) =
           Inr (case find (matches (ById (JInt n))) (docs w) of
                  Some d \<Rightarrow> (Json (parse_json d), OK)
                | None \<Rightarrow> (Json (JObj [(''message'', JStr ''song not found'')]), NOT_FOUND))"
    and "docs (snd (handle_song req n w)) = docs w"
    and "outages (snd (handle_song req n w)) = []"
  using handle_song_get_sem [OF assms(1-3), of n] assms(4)
  by (simp_all add: find_one_sem_encoded lookup_reply_def split: option.splits)

lemma get_song_digits_up:
  assumes "outages w = []" and "py_int s = Inr n" and "bson_int n"
  shows "fst (get_song s w) =
           Inr (case find (matches (ById (JInt n))) (docs w) of
                  Some d \<Rightarrow> (Json (parse_json d), OK)
                | None \<Rightarrow> (Json (JObj [(''message'', JStr ''Song not found'')]), NOT_FOUND))"
    and "docs (snd (get_song s w)) = docs w"
    and "outages (snd (get_song s w)) = []"
  using get_song_digits_sem [OF assms(1,2)] assms(3)
  by (simp_all add: find_one_sem_encoded lookup_reply_def split: option.splits)

lemma handle_song_delete_up:
  assumes "outages w = []" and "request_method req = DELETE" and "bson_int n"
  shows "fst (handle_song req n w) =
           Inr (if find (matches (ById (JInt n))) (docs w) = None
                then (Json (JObj [(''message'', JStr ''song not found'')]), NOT_FOUND)
                else (Text [], NO_CONTENT))"
    and "docs (snd (handle_song req n w)) =
           (if find (matches (ById (JInt n))) (docs w) = None then docs w
            else remove_first (matches (ById (JInt n))) (docs w))"
    and "outages (snd (handle_song req n w)) = []"
  using handle_song_delete_sem [OF assms(1,2), of n] assms(3)
  by (simp_all add: delete_sem_encoded delete_reply_def split: option.splits)

lemma delete_song_legacy_digits_up:
  assumes "outages w = []" and "py_int s = Inr n" and "bson_int n"
  shows "fst (delete_song_legacy s w) =
           Inr (if find (matches (ById (JInt n))) (docs w) = None
                then (Json (JObj [(''message'', JStr ''Song not found'')]), NOT_FOUND)
                else (Text [], NO_CONTENT))"
    and "docs (snd (delete_song_legacy s w)) =
           (if find (matches (ById (JInt n))) (docs w) = None then docs w
            else remove_first (matches (ById (JInt n))) (docs w))"
    and "outages (snd (delete_song_legacy s w)) = []"
  using delete_song_legacy_digits_sem [OF assms(1,2)] assms(3)
  by (simp_all add: delete_sem_encoded delete_reply_def split: option.splits)

lemma handle_song_put_up:
  assumes "outages w = []" and "request_method req = PUT" and "truthy (get_json req)"
  shows "fst (handle_song req n w) = update_reply (update_sem (ById (JInt n)) (get_json req) (docs w))"
    and "docs (snd (handle_song req n w)) =
           (case update_sem (ById (JInt n)) (get_json req) (docs w) of
              Inl e \<Rightarrow> docs w | Inr (r, ds) \<Rightarrow> ds)"
  using assms
  by (simp_all add: handle_song_def action_defs find_one_and_update_def store_op_up
      jsonify_def update_reply_def split: option.splits sum.splits prod.splits)

lemma update_song_legacy_digits_up:
  assumes "outages w = []" and "py_int s = Inr n" and "truthy (get_json req)"
  shows "fst (update_song_legacy req s w) = update_reply (update_sem (ById (JInt n)) (get_json req) (docs w))"
    and "docs (snd (update_song_legacy req s w)) =
           (case update_sem (ById (JInt n)) (get_json req) (docs w) of
              Inl e \<Rightarrow> docs w | Inr (r, ds) \<Rightarrow> ds)"
  using assms py_int_isdigit [OF assms(2)]
  by (simp_all add: update_song_legacy_def action_defs find_one_and_update_def store_op_up
      jsonify_def update_reply_def split: option.splits sum.splits prod.splits)

lemma update_song_legacy_key_up:
  assumes "outages w = []" and "\<not> isdigit s" and "ObjectId s = Inr k" and "truthy (get_json req)"
  shows "fst (update_song_legacy req s w) =
           Inr (case update_sem (ByKey (Oid k)) (get_json req) (docs w) of
        Inl e \<Rightarrow> (Json (JObj [(''error'', JStr ''Invalid song ID format'')]), BAD_REQUEST)
      | Inr (None, ds) \<Rightarrow> (Json (JObj [(''message'', JStr ''song not found'')]), NOT_FOUND)
      | Inr (Some d, ds) \<Rightarrow> (Json (parse_json d), CREATED))"
    and "docs (snd (update_song_legacy req s w)) =
           (case update_sem (ByKey (Oid k)) (get_json req) (docs w) of
              Inl e \<Rightarrow> docs w | Inr (r, ds) \<Rightarrow> ds)"
  using assms
  by (simp_all add: update_song_legacy_def action_defs find_one_and_update_def store_op_up
      jsonify_def split: option.splits sum.splits prod.splits)

lemma get_song_key_up:
  assumes "outages w = []" and "\<not> isdigit s" and "ObjectId s = Inr k"
  shows "fst (get_song s w) =
           Inr (lookup_reply ''Song not found'' (find (matches (ByKey (Oid k))) (docs w)))"
    and "docs (snd (get_song s w)) = docs w"
  using assms
  by (simp_all add: get_song_def action_defs find_one_def find_one_sem_def store_op_up
      jsonify_def lookup_reply_def split: option.splits)

lemma delete_song_legacy_key_up:
  assumes "outages w = []" and "\<not> isdigit s" and "ObjectId s = Inr k"
  shows "fst (delete_song_legacy s w) =
           Inr (if find (matches (ByKey (Oid k))) (docs w) = None
                then (Json (JObj [(''message'', JStr ''Song not found'')]), NOT_FOUND)
                else (Text [], NO_CONTENT))"
    and "docs (snd (delete_song_legacy s w)) =
           (if find (matches (ByKey (Oid k))) (docs w) = None then docs w
            else remove_first (matches (ByKey (Oid k))) (docs w))"
  using assms
  by (simp_all add: delete_song_legacy_def action_defs delete_one_def delete_sem_def store_op_up
      jsonify_def split: option.splits)

lemma create_plain:
  assumes "outages w = []"
    and "get_json req = JObj kvs"
    and "kvs \<noteq> []"
    and "''id'' \<notin> fst ` set kvs"
    and "''_id'' \<notin> fst ` set kvs"
    and "storable (JObj kvs)"
  shows "create_song req w =
     (Inr (Json (parse_json \<lparr>doc_id = Oid (fresh_oid (docs w)), doc_fields = kvs\<rparr>), CREATED),
      w\<lparr>docs := docs w @ [\<lparr>doc_id = Oid (fresh_oid (docs w)), doc_fields = kvs\<rparr>],
        trace := trace w @ [(InsertOne (JObj kvs), None),
                            (FindOne (ByKey (Oid (fresh_oid (docs w)))), None)]\<rparr>)"
proof -
  let ?d = "\<lparr>doc_id = Oid (fresh_oid (docs w)), doc_fields = kvs\<rparr>"
  have none: "map_of kvs ''_id'' = None" using assms(5) by (simp add: map_of_eq_None_iff)
  have enc: "bson_error_pairs kvs = None" using storable_encodes(1) [OF assms(6)] by simp
  have "\<forall>x\<in>set (docs w). \<not> matches (ByKey (Oid (fresh_oid (docs w)))) x"
    using fresh_oid_new [of "docs w"] by (auto simp: image_iff)
  then have found: "find (matches (ByKey (Oid (fresh_oid (docs w))))) (docs w @ [?d]) = Some ?d"
    by (intro find_appended) auto
  show ?thesis
    using assms(1-4) none enc found
    by (simp add: create_song_def insert_and_fetch_def action_defs insert_one_def
        insert_one_sem_def find_one_def find_one_sem_def store_op_up jsonify_def
        parse_json_opt_def)
qed

lemma create_new_id:
  assumes "outages w = []"
    and "get_json req = JObj kvs"
    and "map_of kvs ''id'' = Some v"
    and "''_id'' \<notin> fst ` set kvs"
    and "\<forall>x\<in>set (docs w). \<not> matches (ById v) x"
    and "storable (JObj kvs)"
  shows "create_song req w =
     (Inr (Json (parse_json \<lparr>doc_id = Oid (fresh_oid (docs w)), doc_fields = kvs\<rparr>), CREATED),
      w\<lparr>docs := docs w @ [\<lparr>doc_id = Oid (fresh_oid (docs w)), doc_fields = kvs\<rparr>],
        trace := trace w @ [(FindOne (ById v), None), (InsertOne (JObj kvs), None),
                            (FindOne (ByKey (Oid (fresh_oid (docs w)))), None)]\<rparr>)"
proof -
  let ?d = "\<lparr>doc_id = Oid (fresh_oid (docs w)), doc_fields = kvs\<rparr>"
  have ne: "kvs \<noteq> []" using assms(3) by auto
  have key: "''id'' \<in> fst ` set kvs"
    using assms(3) by (metis map_of_eq_None_iff option.distinct(1))
  have none: "map_of kvs ''_id'' = None" using assms(4) by (simp add: map_of_eq_None_iff)
  have enc: "bson_error_pairs kvs = None" using storable_encodes(1) [OF assms(6)] by simp
  have "storable v" using storable_field [OF _ assms(3)] assms(6) by simp
  then have encv: "bson_error v = None" by (rule storable_encodes(1))
  have absent: "find (matches (ById v)) (docs w) = None" by (rule find_none [OF assms(5)])
  have "\<forall>x\<in>set (docs w). \<not> matches (ByKey (Oid (fresh_oid (docs w)))) x"
    using fresh_oid_new [of "docs w"] by (auto simp: image_iff)
  then have found: "find (matches (ByKey (Oid (fresh_oid (docs w))))) (docs w @ [?d]) = Some ?d"
    by (intro find_appended) auto
  show ?thesis
    using assms(1-3) ne key none enc encv absent found
    by (simp add: create_song_def insert_and_fetch_def action_defs insert_one_def
        insert_one_sem_def find_one_def find_one_sem_def store_op_up jsonify_def
        parse_json_opt_def)
qed

lemma create_times_plain:
  assumes "outages w = []"
    and "get_json req = JObj kvs"
    and "kvs \<noteq> []"
    and "''id'' \<notin> fst ` set kvs"
    and "''_id'' \<notin> fst ` set kvs"
    and "storable (JObj kvs)"
  shows "outages (create_times m req w) = []
       \<and> (\<exists>ks. length ks = m \<and> distinct ks
             \<and> docs (create_times m req w) =
                 docs w @ map (\<lambda>k. \<lparr>doc_id = Oid k, doc_fields = kvs\<rparr>) ks)"
proof (induction m)
  case 0
  show ?case using assms(1) by simp
next
  case (Suc m)
  let ?v = "create_times m req w"
  from Suc obtain ks where up: "outages ?v = []" and ks: "length ks = m" "distinct ks"
    "docs ?v = docs w @ map (\<lambda>k. \<lparr>doc_id = Oid k, doc_fields = kvs\<rparr>) ks"
    by blast
  let ?k = "fresh_oid (docs ?v)"
  have step: "create_song req ?v =
     (Inr (Json (parse_json \<lparr>doc_id = Oid ?k, doc_fields = kvs\<rparr>), CREATED),
      ?v\<lparr>docs := docs ?v @ [\<lparr>doc_id = Oid ?k, doc_fields = kvs\<rparr>],
        trace := trace ?v @ [(InsertOne (JObj kvs), None), (FindOne (ByKey (Oid ?k)), None)]\<rparr>)"
    by (rule create_plain [OF up assms(2-6)])
  have "Oid ?k \<notin> doc_id ` set (docs ?v)" by (rule fresh_oid_new)
  moreover have "Oid ?k \<in> doc_id ` set (docs ?v)" if "?k \<in> set ks"
    using that ks(3) by (force simp: image_iff)
  ultimately have new: "?k \<notin> set ks" by blast
  have "length (ks @ [?k]) = Suc m" "distinct (ks @ [?k])"
    "docs (create_times (Suc m) req w) =
       docs w @ map (\<lambda>k. \<lparr>doc_id = Oid k, doc_fields = kvs\<rparr>) (ks @ [?k])"
    using ks new step by simp_all
  moreover have "outages (create_times (Suc m) req w) = []"
    using step up by simp
  ultimately show ?case by blast
qed

lemma replies_ignore_unmatched:
  assumes up: "outages w = []" and up': "outages w' = []"
    and more: "docs w' = docs w @ [x]"
    and other: "\<not> matches (ById (JInt n)) x"
    and num: "py_int s = Inr n"
  shows "fst (handle_song r n w') = fst (handle_song r n w)"
    and "fst (get_song s w') = fst (get_song s w)"
    and "fst (update_song_legacy r s w') = fst (update_song_legacy r s w)"
    and "fst (delete_song_legacy s w') = fst (delete_song_legacy s w)"
proof -
  have f: "map_sum id fst (find_one_sem (ById (JInt n)) (docs w')) =
      map_sum id fst (find_one_sem (ById (JInt n)) (docs w))"
    unfolding more by (rule find_one_sem_unmatched [OF other])
  have g: "map_sum id fst (delete_sem (ById (JInt n)) (docs w')) =
      map_sum id fst (delete_sem (ById (JInt n)) (docs w))"
    unfolding more by (rule delete_sem_unmatched [OF other])
  have u: "update_reply (update_sem (ById (JInt n)) (get_json r) (docs w')) =
      update_reply (update_sem (ById (JInt n)) (get_json r) (docs w))"
    unfolding more by (rule update_reply_unmatched [OF other])
  show "fst (get_song s w') = fst (get_song s w)"
    unfolding get_song_digits_sem(1) [OF up num] get_song_digits_sem(1) [OF up' num] f ..
  show "fst (delete_song_legacy s w') = fst (delete_song_legacy s w)"
    unfolding delete_song_legacy_digits_sem(1) [OF up num]
      delete_song_legacy_digits_sem(1) [OF up' num] g ..
  show "fst (update_song_legacy r s w') = fst (update_song_legacy r s w)"
  proof (cases "truthy (get_json r)")
    case True
    then show ?thesis
      using update_song_legacy_digits_up(1) [OF up num] update_song_legacy_digits_up(1) [OF up' num] u
      by simp
  next
    case False
    then show ?thesis by (simp add: update_song_legacy_def action_defs)
  qed
  show "fst (handle_song r n w') = fst (handle_song r n w)"
  proof (cases "request_method r = PUT")
    case True
    show ?thesis
    proof (cases "truthy (get_json r)")
      case t: True
      show ?thesis
        using handle_song_put_up(1) [OF up True t] handle_song_put_up(1) [OF up' True t] u by simp
    next
      case False
      then show ?thesis using True by (simp add: handle_song_def action_defs)
    qed
  next
    case notput: False
    show ?thesis
    proof (cases "request_method r = DELETE")
      case True
      show ?thesis
        unfolding handle_song_delete_sem(1) [OF up True] handle_song_delete_sem(1) [OF up' True] g ..
    next
      case False
      show ?thesis
        unfolding handle_song_get_sem(1) [OF up notput False]
          handle_song_get_sem(1) [OF up' notput False] f ..
    qed
  qed
qed

lemma same_id_twice_docs:
  "docs same_id_twice =
     [\<lparr>doc_id = Oid 1, doc_fields = [(''id'', JInt 2)]\<rparr>,
      \<lparr>doc_id = Oid 2, doc_fields = [(''id'', JInt 2)]\<rparr>]
   \<and> outages same_id_twice = []"
  by (simp add: same_id_twice_def sample_defs route_defs store_defs action_defs jsonify_def)

section \<open>Properties of the routes\<close>

subsection \<open>Listing\<close>

text \<open>
  C7. While the store answers, \<^verbatim>\<open>GET /song\<close> returns every record of the collection,
  in the store's order, as an array under the key \<^verbatim>\<open>songs\<close>, and \<^verbatim>\<open>GET /songs\<close>
  returns the same array bare. Both answer 200 and leave the collection as it was.
\<close>

theorem list_endpoints:
  assumes "outages w = []" and "request_method req = GET"
  shows "fst (handle_songs req w) =
           Inr (Json (JObj [(''songs'', JArr (map parse_json (docs w)))]), OK)
       \<and> fst (get_songs w) = Inr (Json (JArr (map parse_json (docs w))), OK)
       \<and> status_code OK = 200
       \<and> docs (snd (handle_songs req w)) = docs w
       \<and> docs (snd (get_songs w)) = docs w"
  using assms
  by (simp add: handle_songs_def get_all_songs_def get_songs_def find_all_def find_sem_def
      store_op_up action_defs jsonify_def parse_json_list_def)

theorem list_endpoints_witness:
  "fst (handle_songs get_request one_song) =
     Inr (Json (JObj [(''songs'', JArr [parse_json song7])]), OK)
   \<and> fst (get_songs one_song) = Inr (Json (JArr [parse_json song7]), OK)"
proof -
  have up: "outages one_song = []" by (simp add: one_song_def)
  have get: "request_method get_request = GET" by (simp add: get_request_def)
  show ?thesis
    using list_endpoints [OF up get] by (simp add: one_song_def)
qed

subsection \<open>Creating\<close>

text \<open>
  C2. While the store answers: when some record of the collection has \<^verbatim>\<open>id\<close> equal to
  \<open>n\<close> and the body of a create request has \<^verbatim>\<open>id\<close> equal to \<open>n\<close>, the answer is the
  duplicate message with status \<^verbatim>\<open>FOUND\<close> (302, not 409), the collection is left as
  it was, and the only store call made is the lookup of \<open>n\<close>: nothing is inserted.
\<close>

theorem create_duplicate_id:
  assumes "outages w = []"
    and "get_json req = JObj kvs"
    and "map_of kvs ''id'' = Some n"
    and "d \<in> set (docs w)"
    and "map_of (doc_fields d) ''id'' = Some n"
  shows "fst (create_song req w) =
           Inr (Json (JObj [(''Message'',
                  JStr (''song with id '' @ py_str n @ '' already present''))]), FOUND)
       \<and> status_code FOUND = 302
       \<and> docs (snd (create_song req w)) = docs w
       \<and> trace (snd (create_song req w)) = trace w @ [(FindOne (ById n), None)]"
proof -
  have ne: "kvs \<noteq> []" using assms(3) by auto
  have key: "''id'' \<in> fst ` set kvs"
    using assms(3) by (metis map_of_eq_None_iff option.distinct(1))
  obtain x where x: "find (matches (ById n)) (docs w) = Some x"
    using find_matching [of d "docs w" "matches (ById n)"] assms(4,5) by auto
  show ?thesis
    using assms(1,2,3) ne key x
    by (simp add: create_song_def action_defs find_one_def find_one_sem_def store_op_up
        jsonify_def)
qed

theorem create_duplicate_id_witness:
  "fst (create_song (post_request (JObj [(''id'', JInt 7), (''title'', JStr ''Z'')])) one_song) =
     Inr (Json (JObj [(''Message'', JStr ''song with id 7 already present'')]), FOUND)
   \<and> docs (snd (create_song (post_request (JObj [(''id'', JInt 7), (''title'', JStr ''Z'')]))
         one_song)) = [song7]"
proof -
  have up: "outages one_song = []" by (simp add: one_song_def)
  have body: "get_json (post_request (JObj [(''id'', JInt 7), (''title'', JStr ''Z'')])) =
      JObj [(''id'', JInt 7), (''title'', JStr ''Z'')]"
    by (simp add: post_request_def)
  have payload: "map_of [(''id'', JInt 7), (''title'', JStr ''Z'')] ''id'' = Some (JInt 7)"
    by simp
  have present: "song7 \<in> set (docs one_song)" by (simp add: one_song_def)
  have same: "map_of (doc_fields song7) ''id'' = Some (JInt 7)" by (simp add: song7_def)
  have seven: "py_str (JInt 7) = ''7''"
    by (simp add: str_int_def decimal.simps digit_char_def)
  show ?thesis
    using create_duplicate_id [OF up body payload present same] seven
    by (simp add: one_song_def)
qed

text \<open>
  C8, as amended. While the store answers: a create request whose body is a non-empty
  object with no \<^verbatim>\<open>id\<close> key and no \<^verbatim>\<open>_id\<close> key, and which the store can hold (its
  integers fit in 64 bits, its field names are plain), makes exactly two store calls,
  the insert and the lookup of the inserted key; no lookup by \<^verbatim>\<open>id\<close> is made. The
  document is appended to the collection under a fresh key and returned with status
  201. Sent \<open>m\<close> times in a row, the request adds \<open>m\<close> records with the same fields and
  distinct keys.
\<close>

theorem create_without_id:
  assumes "outages w = []"
    and "get_json req = JObj kvs"
    and "kvs \<noteq> []"
    and "''id'' \<notin> fst ` set kvs"
    and "''_id'' \<notin> fst ` set kvs"
    and "storable (JObj kvs)"
  shows "(\<exists>k. Oid k \<notin> doc_id ` set (docs w)
           \<and> fst (create_song req w) =
               Inr (Json (parse_json \<lparr>doc_id = Oid k, doc_fields = kvs\<rparr>), CREATED)
           \<and> docs (snd (create_song req w)) = docs w @ [\<lparr>doc_id = Oid k, doc_fields = kvs\<rparr>]
           \<and> trace (snd (create_song req w)) =
               trace w @ [(InsertOne (JObj kvs), None), (FindOne (ByKey (Oid k)), None)])
       \<and> status_code CREATED = 201
       \<and> (\<forall>m. \<exists>ks. length ks = m \<and> distinct ks
             \<and> docs (create_times m req w) =
                 docs w @ map (\<lambda>k. \<lparr>doc_id = Oid k, doc_fields = kvs\<rparr>) ks)"
proof (intro conjI allI)
  show "\<exists>k. Oid k \<notin> doc_id ` set (docs w)
           \<and> fst (create_song req w) =
               Inr (Json (parse_json \<lparr>doc_id = Oid k, doc_fields = kvs\<rparr>), CREATED)
           \<and> docs (snd (create_song req w)) = docs w @ [\<lparr>doc_id = Oid k, doc_fields = kvs\<rparr>]
           \<and> trace (snd (create_song req w)) =
               trace w @ [(InsertOne (JObj kvs), None), (FindOne (ByKey (Oid k)), None)]"
    using create_plain [OF assms] fresh_oid_new [of "docs w"]
    by (intro exI [of _ "fresh_oid (docs w)"]) simp
  show "status_code CREATED = 201" by simp
  show "\<exists>ks. length ks = m \<and> distinct ks
             \<and> docs (create_times m req w) =
                 docs w @ map (\<lambda>k. \<lparr>doc_id = Oid k, doc_fields = kvs\<rparr>) ks" for m
    using create_times_plain [OF assms, of m] by blast
qed

theorem create_without_id_witness:
  "(\<exists>k. fst (create_song (post_request (JObj [(''title'', JStr ''A'')])) one_song) =
          Inr (Json (parse_json \<lparr>doc_id = Oid k, doc_fields = [(''title'', JStr ''A'')]\<rparr>), CREATED)
       \<and> Oid k \<noteq> Oid 1
       \<and> trace (snd (create_song (post_request (JObj [(''title'', JStr ''A'')])) one_song)) =
           [(InsertOne (JObj [(''title'', JStr ''A'')]), None), (FindOne (ByKey (Oid k)), None)])
   \<and> (\<exists>ks. length ks = 3 \<and> distinct ks
        \<and> docs (create_times 3 (post_request (JObj [(''title'', JStr ''A'')])) one_song) =
            song7 # map (\<lambda>k. \<lparr>doc_id = Oid k, doc_fields = [(''title'', JStr ''A'')]\<rparr>) ks)"
proof -
  let ?req = "post_request (JObj [(''title'', JStr ''A'')])"
  have up: "outages one_song = []" by (simp add: one_song_def)
  have body: "get_json ?req = JObj [(''title'', JStr ''A'')]" by (simp add: post_request_def)
  have ne: "[(''title'', JStr ''A'')] \<noteq> []" by simp
  have noid: "''id'' \<notin> fst ` set [(''title'', JStr ''A'')]" by simp
  have nokey: "''_id'' \<notin> fst ` set [(''title'', JStr ''A'')]" by simp
  have fits: "storable (JObj [(''title'', JStr ''A'')])" by (simp add: plain_key_def)
  note inst = create_without_id [OF up body ne noid nokey fits]
  from inst obtain k where k: "Oid k \<notin> doc_id ` set (docs one_song)"
    "fst (create_song ?req one_song) =
       Inr (Json (parse_json \<lparr>doc_id = Oid k, doc_fields = [(''title'', JStr ''A'')]\<rparr>), CREATED)"
    "trace (snd (create_song ?req one_song)) =
       trace one_song @ [(InsertOne (JObj [(''title'', JStr ''A'')]), None),
                         (FindOne (ByKey (Oid k)), None)]"
    by blast
  from inst obtain ks where ks: "length ks = 3" "distinct ks"
    "docs (create_times 3 ?req one_song) =
       docs one_song @ map (\<lambda>k. \<lparr>doc_id = Oid k, doc_fields = [(''title'', JStr ''A'')]\<rparr>) ks"
    by blast
  have "Oid k \<noteq> Oid 1" using k(1) by (auto simp: one_song_def song7_def)
  then show ?thesis
    using k(2,3) ks by (auto simp: one_song_def)
qed

text \<open>
  The claim as stated, for every non-empty payload without \<^verbatim>\<open>id\<close>, fails in two
  ways. A payload that names the native key is inserted once only: in \<open>own_key\<close>,
  reached by one create with the body \<^verbatim>\<open>{"_id": "a", "title": "A"}\<close>, the same
  request is refused by the store, answered 500, and nothing is inserted. A payload
  that is not an object, such as \<^verbatim>\<open>[1]\<close>, is refused by \<^verbatim>\<open>insert_one\<close> and answered
  500 as well.
\<close>

theorem create_own_key_counterexample:
  "docs own_key = [\<lparr>doc_id = Supplied (JStr ''a''), doc_fields = [(''title'', JStr ''A'')]\<rparr>]
   \<and> truthy (JObj [(''_id'', JStr ''a''), (''title'', JStr ''A'')])
   \<and> py_in ''id'' (JObj [(''_id'', JStr ''a''), (''title'', JStr ''A'')]) = Inr False
   \<and> fst (create_song (post_request (JObj [(''_id'', JStr ''a''), (''title'', JStr ''A'')]))
        own_key) =
       Inr (Json (JObj [(''error'', JStr ''Failed to create song'')]), INTERNAL_SERVER_ERROR)
   \<and> docs (snd (create_song (post_request (JObj [(''_id'', JStr ''a''), (''title'', JStr ''A'')]))
        own_key)) = docs own_key
   \<and> truthy (JArr [JInt 1])
   \<and> py_in ''id'' (JArr [JInt 1]) = Inr False
   \<and> fst (create_song (post_request (JArr [JInt 1])) no_songs) =
       Inr (Json (JObj [(''error'', JStr ''Failed to create song'')]), INTERNAL_SERVER_ERROR)
   \<and> docs (snd (create_song (post_request (JArr [JInt 1])) no_songs)) = []
   \<and> status_code INTERNAL_SERVER_ERROR = 500"
  by (simp add: own_key_def sample_defs route_defs store_defs action_defs jsonify_def
      parse_json_opt_def)

text \<open>
  C9, as amended. The duplicate check is the store's match on \<^verbatim>\<open>id\<close>, and a string
  never matches an integer: while the store answers, a create request (a body the
  store can hold, with no \<^verbatim>\<open>_id\<close>) whose \<^verbatim>\<open>id\<close> is a string of decimal digits \<open>s\<close>
  that no record matches is inserted with status 201, whether or not a record has
  the integer that \<open>s\<close> spells as its \<^verbatim>\<open>id\<close>. The new record does not match a lookup
  of that integer: every request to \<^verbatim>\<open>/song/<n>\<close> and to \<^verbatim>\<open>/songs/<s>\<close> is answered as
  it was before the insert.
\<close>

theorem string_id_beside_integer_id:
  assumes up: "outages w = []"
    and body: "get_json req = JObj kvs" "map_of kvs ''id'' = Some (JStr s)"
      "''_id'' \<notin> fst ` set kvs"
    and new: "\<forall>x\<in>set (docs w). \<not> matches (ById (JStr s)) x"
    and num: "py_int s = Inr n"
    and fits: "storable (JObj kvs)"
  shows "\<exists>k. fst (create_song req w) =
               Inr (Json (parse_json \<lparr>doc_id = Oid k, doc_fields = kvs\<rparr>), CREATED)
           \<and> docs (snd (create_song req w)) = docs w @ [\<lparr>doc_id = Oid k, doc_fields = kvs\<rparr>]
           \<and> \<not> matches (ById (JInt n)) \<lparr>doc_id = Oid k, doc_fields = kvs\<rparr>
           \<and> (\<forall>r. fst (handle_song r n (snd (create_song req w))) = fst (handle_song r n w)
                 \<and> fst (update_song_legacy r s (snd (create_song req w))) =
                     fst (update_song_legacy r s w))
           \<and> fst (get_song s (snd (create_song req w))) = fst (get_song s w)
           \<and> fst (delete_song_legacy s (snd (create_song req w))) = fst (delete_song_legacy s w)"
proof -
  let ?k = "fresh_oid (docs w)"
  let ?d = "\<lparr>doc_id = Oid ?k, doc_fields = kvs\<rparr>"
  let ?w' = "snd (create_song req w)"
  note step = create_new_id [OF up body new fits]
  have up': "outages ?w' = []" using step up by simp
  have more: "docs ?w' = docs w @ [?d]" using step by simp
  have other: "\<not> matches (ById (JInt n)) ?d" using body(2) by simp
  note same = replies_ignore_unmatched [OF up up' more other num]
  show ?thesis
    using step more other same by (intro exI [of _ ?k]) simp
qed

theorem string_id_beside_integer_id_witness:
  "\<exists>k. fst (create_song (post_request (JObj [(''id'', JStr ''7'')])) one_song) =
          Inr (Json (parse_json \<lparr>doc_id = Oid k, doc_fields = [(''id'', JStr ''7'')]\<rparr>), CREATED)
      \<and> docs (snd (create_song (post_request (JObj [(''id'', JStr ''7'')])) one_song)) =
          [song7, \<lparr>doc_id = Oid k, doc_fields = [(''id'', JStr ''7'')]\<rparr>]
      \<and> py_str (JInt 7) = py_str (JStr ''7'')
      \<and> fst (handle_song get_request 7
            (snd (create_song (post_request (JObj [(''id'', JStr ''7'')])) one_song))) =
          fst (handle_song get_request 7 one_song)
      \<and> fst (get_song ''7''
            (snd (create_song (post_request (JObj [(''id'', JStr ''7'')])) one_song))) =
          fst (get_song ''7'' one_song)"
proof -
  let ?req = "post_request (JObj [(''id'', JStr ''7'')])"
  have up: "outages one_song = []" by (simp add: one_song_def)
  have body: "get_json ?req = JObj [(''id'', JStr ''7'')]"
    "map_of [(''id'', JStr ''7'')] ''id'' = Some (JStr ''7'')"
    "''_id'' \<notin> fst ` set [(''id'', JStr ''7'')]"
    by (simp_all add: post_request_def)
  have new: "\<forall>x\<in>set (docs one_song). \<not> matches (ById (JStr ''7'')) x"
    by (simp add: one_song_def song7_def)
  have num: "py_int ''7'' = Inr 7"
    by (simp add: py_int_def is_decimal_char_def digit_value_def)
  have fits: "storable (JObj [(''id'', JStr ''7'')])" by (simp add: plain_key_def)
  have same: "py_str (JInt 7) = py_str (JStr ''7'')"
    by (simp add: str_int_def decimal.simps digit_char_def)
  from string_id_beside_integer_id [OF up body new num fits] obtain k
    where "fst (create_song ?req one_song) =
             Inr (Json (parse_json \<lparr>doc_id = Oid k, doc_fields = [(''id'', JStr ''7'')]\<rparr>), CREATED)"
      "docs (snd (create_song ?req one_song)) =
         docs one_song @ [\<lparr>doc_id = Oid k, doc_fields = [(''id'', JStr ''7'')]\<rparr>]"
      "\<forall>r. fst (handle_song r 7 (snd (create_song ?req one_song))) = fst (handle_song r 7 one_song)
         \<and> fst (update_song_legacy r ''7'' (snd (create_song ?req one_song))) =
             fst (update_song_legacy r ''7'' one_song)"
      "fst (get_song ''7'' (snd (create_song ?req one_song))) = fst (get_song ''7'' one_song)"
    by blast
  then show ?thesis
    using same by (intro exI [of _ k]) (simp add: one_song_def)
qed

text \<open>
  The claim as stated, that the check compares \<^verbatim>\<open>id\<close> values by exact equality,
  fails on a record whose \<^verbatim>\<open>id\<close> is an array: the store's filter \<^verbatim>\<open>{"id": 7}\<close> matches
  it when 7 is one of the elements. In \<open>array_id\<close>, reached by one create with the
  body \<^verbatim>\<open>{"id": [7]}\<close>, a create with \<^verbatim>\<open>id\<close> 7 is answered as a duplicate, and the
  numeric route returns the record for 7.
\<close>

theorem array_id_counterexample:
  "docs array_id = [\<lparr>doc_id = Oid 1, doc_fields = [(''id'', JArr [JInt 7])]\<rparr>]
   \<and> JInt 7 \<noteq> JArr [JInt 7]
   \<and> fst (create_song (post_request (JObj [(''id'', JInt 7)])) array_id) =
       Inr (Json (JObj [(''Message'', JStr ''song with id 7 already present'')]), FOUND)
   \<and> docs (snd (create_song (post_request (JObj [(''id'', JInt 7)])) array_id)) = docs array_id
   \<and> fst (handle_song get_request 7 array_id) =
       Inr (Json (parse_json \<lparr>doc_id = Oid 1, doc_fields = [(''id'', JArr [JInt 7])]\<rparr>), OK)"
  by (simp add: array_id_def sample_defs route_defs store_defs action_defs jsonify_def
      parse_json_opt_def str_int_def decimal.simps digit_char_def)

subsection \<open>Updating\<close>

text \<open>
  C3, as amended. While the store answers: for a \<^verbatim>\<open>PUT\<close> whose body is a non-empty
  object that the store can hold (its integers fit in 64 bits, its field names are
  plain: not empty, without a dot or NUL, not starting with \<^verbatim>\<open>$\<close>) and that does not
  name the native key \<^verbatim>\<open>_id\<close>, sent to \<^verbatim>\<open>/song/<n>\<close>, to \<^verbatim>\<open>/songs/<digits>\<close> or to
  \<^verbatim>\<open>/songs/<ObjectId>\<close>, the first record \<open>d\<close> the route resolves is replaced in
  place by a record \<open>d'\<close> with the same native key in which every field of the body
  has the body's value and every other field has the value it had in \<open>d\<close>; the
  records before and after it are untouched, and the answer is \<open>d'\<close> with status 201.
  (The fields of a body are distinct, as the keys of a Python dict are.)
\<close>

theorem update_merges_fields:
  assumes up: "outages w = []"
    and put: "request_method req = PUT"
    and body: "get_json req = JObj kvs" "kvs \<noteq> []" "''_id'' \<notin> fst ` set kvs"
      "storable (JObj kvs)" "distinct (map fst kvs)"
    and first: "docs w = before @ d # after" "\<forall>x\<in>set before. \<not> matches f x" "matches f d"
    and route: "(f = ById (JInt n) \<and> bson_int n \<and> r = handle_song req n w)
              \<or> (f = ById (JInt n) \<and> bson_int n \<and> py_int s = Inr n
                   \<and> r = update_song_legacy req s w)
              \<or> (f = ByKey (Oid k) \<and> \<not> isdigit s \<and> ObjectId s = Inr k
                   \<and> r = update_song_legacy req s w)"
  shows "\<exists>d'. fst r = Inr (Json (parse_json d'), CREATED)
           \<and> status_code CREATED = 201
           \<and> docs (snd r) = before @ d' # after
           \<and> doc_id d' = doc_id d
           \<and> (\<forall>name. map_of (doc_fields d') name =
                 (case map_of kvs name of Some v \<Rightarrow> Some v | None \<Rightarrow> map_of (doc_fields d) name))"
proof -
  have t: "truthy (get_json req)" using body by simp
  obtain d' where sem: "update_sem f (get_json req) (docs w) = Inr (Some d', before @ d' # after)"
    and key: "doc_id d' = doc_id d"
    and merged: "\<forall>name. map_of (doc_fields d') name =
      (case map_of kvs name of Some v \<Rightarrow> Some v | None \<Rightarrow> map_of (doc_fields d) name)"
    using update_sem_split [OF first(2,3) body(4,5,3), of after] body(1) first(1) by auto
  have "fst r = Inr (Json (parse_json d'), CREATED) \<and> docs (snd r) = before @ d' # after"
    using route
  proof (elim disjE conjE)
    assume "f = ById (JInt n)" "r = handle_song req n w"
    then show ?thesis
      using handle_song_put_up [OF up put t, of n] sem by (simp add: update_reply_def)
  next
    assume "f = ById (JInt n)" "py_int s = Inr n" "r = update_song_legacy req s w"
    then show ?thesis
      using update_song_legacy_digits_up [OF up _ t, of s n] sem by (simp add: update_reply_def)
  next
    assume "f = ByKey (Oid k)" "\<not> isdigit s" "ObjectId s = Inr k" "r = update_song_legacy req s w"
    then show ?thesis
      using update_song_legacy_key_up [OF up _ _ t, of s k] sem by simp
  qed
  then show ?thesis using key merged by (intro exI [of _ d']) simp
qed

theorem update_merges_fields_witness:
  "\<exists>d'. fst (handle_song (put_request (JObj [(''title'', JStr ''C'')])) 7 one_song) =
            Inr (Json (parse_json d'), CREATED)
      \<and> docs (snd (handle_song (put_request (JObj [(''title'', JStr ''C'')])) 7 one_song)) = [d']
      \<and> doc_id d' = Oid 1
      \<and> map_of (doc_fields d') ''id'' = Some (JInt 7)
      \<and> map_of (doc_fields d') ''title'' = Some (JStr ''C'')
      \<and> map_of (doc_fields d') ''artist'' = Some (JStr ''B'')"
proof -
  let ?req = "put_request (JObj [(''title'', JStr ''C'')])"
  have up: "outages one_song = []" by (simp add: one_song_def)
  have put: "request_method ?req = PUT" by (simp add: put_request_def)
  have body: "get_json ?req = JObj [(''title'', JStr ''C'')]" by (simp add: put_request_def)
  have ne: "[(''title'', JStr ''C'')] \<noteq> []" by simp
  have nokey: "''_id'' \<notin> fst ` set [(''title'', JStr ''C'')]" by simp
  have fits: "storable (JObj [(''title'', JStr ''C'')])" by (simp add: plain_key_def)
  have once: "distinct (map fst [(''title'', JStr ''C'')])" by simp
  have split: "docs one_song = [] @ song7 # []" by (simp add: one_song_def)
  have before: "\<forall>x\<in>set []. \<not> matches (ById (JInt 7)) x" by simp
  have hit: "matches (ById (JInt 7)) song7" by (simp add: song7_def)
  have route: "(ById (JInt 7) = ById (JInt 7) \<and> bson_int 7
          \<and> handle_song ?req 7 one_song = handle_song ?req 7 one_song)
     \<or> (ById (JInt 7) = ById (JInt 7) \<and> bson_int 7 \<and> py_int [] = Inr 7
          \<and> handle_song ?req 7 one_song = update_song_legacy ?req [] one_song)
     \<or> (ById (JInt 7) = ByKey (Oid 0) \<and> \<not> isdigit [] \<and> ObjectId [] = Inr 0
          \<and> handle_song ?req 7 one_song = update_song_legacy ?req [] one_song)"
    by (simp add: bson_int_def)
  from update_merges_fields [OF up put body ne nokey fits once split before hit route]
  obtain d' where d': "fst (handle_song ?req 7 one_song) = Inr (Json (parse_json d'), CREATED)"
      "docs (snd (handle_song ?req 7 one_song)) = [] @ d' # []"
      "doc_id d' = doc_id song7"
      "\<forall>name. map_of (doc_fields d') name =
         (case map_of [(''title'', JStr ''C'')] name of Some v \<Rightarrow> Some v
          | None \<Rightarrow> map_of (doc_fields song7) name)"
    by blast
  show ?thesis
    using d'(1,2,3) d'(4) [rule_format, of "''id''"] d'(4) [rule_format, of "''title''"]
      d'(4) [rule_format, of "''artist''"]
    by (intro exI [of _ d']) (simp add: song7_def)
qed

text \<open>
  The claim as stated, for every non-empty payload, fails in two ways. A payload
  that names the native key with another value is refused by the store: the answer
  is 500 and the record is left as it was. A payload key with a dot is read by
  \<^verbatim>\<open>$set\<close> as a path: the body \<^verbatim>\<open>{"a.b": 1}\<close> gives the record a field \<^verbatim>\<open>a\<close> that holds
  the object \<^verbatim>\<open>{"b": 1}\<close>, and no field \<^verbatim>\<open>a.b\<close>.
\<close>

theorem update_payload_counterexample:
  "truthy (JObj [(''_id'', JStr ''x'')])
   \<and> fst (handle_song (put_request (JObj [(''_id'', JStr ''x'')])) 7 one_song) =
       Inr (Json (JObj [(''error'', JStr ''Failed to update song'')]), INTERNAL_SERVER_ERROR)
   \<and> docs (snd (handle_song (put_request (JObj [(''_id'', JStr ''x'')])) 7 one_song)) = [song7]
   \<and> fst (update_song_legacy (put_request (JObj [(''_id'', JStr ''x'')])) ''7'' one_song) =
       Inr (Json (JObj [(''error'', JStr ''Failed to update song'')]), INTERNAL_SERVER_ERROR)
   \<and> status_code INTERNAL_SERVER_ERROR = 500
   \<and> docs (snd (handle_song (put_request (JObj [(''a.b'', JInt 1)])) 7 one_song)) =
       [\<lparr>doc_id = Oid 1,
         doc_fields = [(''id'', JInt 7), (''title'', JStr ''A''), (''artist'', JStr ''B''),
                       (''a'', JObj [(''b'', JInt 1)])]\<rparr>]"
  by (simp add: sample_defs route_defs store_defs action_defs jsonify_def
      isdigit_def is_digit_char_def py_int_def is_decimal_char_def digit_value_def)

subsection \<open>Missing records and deletion\<close>

text \<open>
  C4, as amended. A record matches \<open>n\<close> when its \<^verbatim>\<open>id\<close> is \<open>n\<close> or an array with the
  element \<open>n\<close>; \<open>n\<close> fits in 64 bits. While the store answers: when no record matches
  \<open>n\<close>, get, update (with a non-empty object as body that the store can hold) and
  delete by \<open>n\<close>, on \<^verbatim>\<open>/song/<n>\<close> and on \<^verbatim>\<open>/songs/<digits of n>\<close>, answer 404 and leave
  the collection as it was. When exactly one record matches \<open>n\<close>, deleting \<open>n\<close> answers
  204 with an empty body and removes that record, and deleting \<open>n\<close> again answers 404;
  the collection is without the record after both.
\<close>

theorem not_found_and_delete_once:
  assumes up: "outages w = []"
    and num: "py_int s = Inr n" "bson_int n"
    and get: "request_method greq = GET"
    and put: "request_method preq = PUT" "get_json preq = JObj kvs" "kvs \<noteq> []"
      "storable (JObj kvs)" "distinct (map fst kvs)"
    and del: "request_method dreq = DELETE"
  shows "((\<forall>x\<in>set (docs w). \<not> matches (ById (JInt n)) x) \<longrightarrow>
            fst (handle_song greq n w) =
              Inr (Json (JObj [(''message'', JStr ''song not found'')]), NOT_FOUND)
          \<and> fst (get_song s w) =
              Inr (Json (JObj [(''message'', JStr ''Song not found'')]), NOT_FOUND)
          \<and> fst (handle_song preq n w) =
              Inr (Json (JObj [(''message'', JStr ''song not found'')]), NOT_FOUND)
          \<and> fst (update_song_legacy preq s w) =
              Inr (Json (JObj [(''message'', JStr ''song not found'')]), NOT_FOUND)
          \<and> fst (handle_song dreq n w) =
              Inr (Json (JObj [(''message'', JStr ''song not found'')]), NOT_FOUND)
          \<and> fst (delete_song_legacy s w) =
              Inr (Json (JObj [(''message'', JStr ''Song not found'')]), NOT_FOUND)
          \<and> docs (snd (handle_song preq n w)) = docs w
          \<and> docs (snd (update_song_legacy preq s w)) = docs w
          \<and> docs (snd (handle_song dreq n w)) = docs w
          \<and> docs (snd (delete_song_legacy s w)) = docs w)
       \<and> (docs w = before @ d # after \<and> matches (ById (JInt n)) d
            \<and> (\<forall>x\<in>set (before @ after). \<not> matches (ById (JInt n)) x) \<longrightarrow>
            fst (handle_song dreq n w) = Inr (Text [], NO_CONTENT)
          \<and> docs (snd (handle_song dreq n w)) = before @ after
          \<and> fst (handle_song dreq n (snd (handle_song dreq n w))) =
              Inr (Json (JObj [(''message'', JStr ''song not found'')]), NOT_FOUND)
          \<and> docs (snd (handle_song dreq n (snd (handle_song dreq n w)))) = before @ after
          \<and> fst (delete_song_legacy s w) = Inr (Text [], NO_CONTENT)
          \<and> docs (snd (delete_song_legacy s w)) = before @ after
          \<and> fst (delete_song_legacy s (snd (delete_song_legacy s w))) =
              Inr (Json (JObj [(''message'', JStr ''Song not found'')]), NOT_FOUND)
          \<and> docs (snd (delete_song_legacy s (snd (delete_song_legacy s w)))) = before @ after)
       \<and> status_code NO_CONTENT = 204 \<and> status_code NOT_FOUND = 404"
proof (intro conjI impI)
  assume none: "\<forall>x\<in>set (docs w). \<not> matches (ById (JInt n)) x"
  have f: "find (matches (ById (JInt n))) (docs w) = None"
    using none by (rule find_none)
  have t: "truthy (get_json preq)" using put by simp
  have sem: "update_sem (ById (JInt n)) (get_json preq) (docs w) = Inr (None, docs w)"
    using update_sem_none [OF none filter_error_int [OF num(2)] put(4,5)] put(2) by simp
  show "fst (handle_song greq n w) =
      Inr (Json (JObj [(''message'', JStr ''song not found'')]), NOT_FOUND)"
    using handle_song_get_up(1) [OF up _ _ num(2), of greq] get f by simp
  show "fst (get_song s w) = Inr (Json (JObj [(''message'', JStr ''Song not found'')]), NOT_FOUND)"
    using get_song_digits_up(1) [OF up num] f by simp
  show "fst (handle_song preq n w) =
      Inr (Json (JObj [(''message'', JStr ''song not found'')]), NOT_FOUND)"
    using handle_song_put_up(1) [OF up put(1) t, of n] sem by (simp add: update_reply_def)
  show "fst (update_song_legacy preq s w) =
      Inr (Json (JObj [(''message'', JStr ''song not found'')]), NOT_FOUND)"
    using update_song_legacy_digits_up(1) [OF up num(1) t] sem by (simp add: update_reply_def)
  show "fst (handle_song dreq n w) =
      Inr (Json (JObj [(''message'', JStr ''song not found'')]), NOT_FOUND)"
    using handle_song_delete_up(1) [OF up del num(2)] f by simp
  show "fst (delete_song_legacy s w) =
      Inr (Json (JObj [(''message'', JStr ''Song not found'')]), NOT_FOUND)"
    using delete_song_legacy_digits_up(1) [OF up num] f by simp
  show "docs (snd (handle_song preq n w)) = docs w"
    using handle_song_put_up(2) [OF up put(1) t, of n] sem by simp
  show "docs (snd (update_song_legacy preq s w)) = docs w"
    using update_song_legacy_digits_up(2) [OF up num(1) t] sem by simp
  show "docs (snd (handle_song dreq n w)) = docs w"
    using handle_song_delete_up(2) [OF up del num(2)] f by simp
  show "docs (snd (delete_song_legacy s w)) = docs w"
    using delete_song_legacy_digits_up(2) [OF up num] f by simp
next
  assume one: "docs w = before @ d # after \<and> matches (ById (JInt n)) d
      \<and> (\<forall>x\<in>set (before @ after). \<not> matches (ById (JInt n)) x)"
  then have b: "\<forall>x\<in>set before. \<not> matches (ById (JInt n)) x"
    and hit: "matches (ById (JInt n)) d"
    and rest: "\<forall>x\<in>set (before @ after). \<not> matches (ById (JInt n)) x"
    and split: "docs w = before @ d # after"
    by simp_all
  have f: "find (matches (ById (JInt n))) (docs w) = Some d"
    unfolding split by (rule find_split [OF b hit])
  have r: "remove_first (matches (ById (JInt n))) (docs w) = before @ after"
    unfolding split by (rule remove_first_split [OF b hit])
  have gone: "find (matches (ById (JInt n))) (before @ after) = None"
    by (rule find_none [OF rest])
  let ?w1 = "snd (handle_song dreq n w)"
  have up1: "outages ?w1 = []" by (rule handle_song_delete_up(3) [OF up del num(2)])
  have d1: "docs ?w1 = before @ after"
    using handle_song_delete_up(2) [OF up del num(2)] f r by simp
  show "fst (handle_song dreq n w) = Inr (Text [], NO_CONTENT)"
    using handle_song_delete_up(1) [OF up del num(2)] f by simp
  show "docs ?w1 = before @ after" by (rule d1)
  show "fst (handle_song dreq n ?w1) =
      Inr (Json (JObj [(''message'', JStr ''song not found'')]), NOT_FOUND)"
    using handle_song_delete_up(1) [OF up1 del num(2)] d1 gone by simp
  show "docs (snd (handle_song dreq n ?w1)) = before @ after"
    using handle_song_delete_up(2) [OF up1 del num(2)] d1 gone by simp
  let ?w2 = "snd (delete_song_legacy s w)"
  have up2: "outages ?w2 = []" by (rule delete_song_legacy_digits_up(3) [OF up num])
  have d2: "docs ?w2 = before @ after"
    using delete_song_legacy_digits_up(2) [OF up num] f r by simp
  show "fst (delete_song_legacy s w) = Inr (Text [], NO_CONTENT)"
    using delete_song_legacy_digits_up(1) [OF up num] f by simp
  show "docs ?w2 = before @ after" by (rule d2)
  show "fst (delete_song_legacy s ?w2) =
      Inr (Json (JObj [(''message'', JStr ''Song not found'')]), NOT_FOUND)"
    using delete_song_legacy_digits_up(1) [OF up2 num] d2 gone by simp
  show "docs (snd (delete_song_legacy s ?w2)) = before @ after"
    using delete_song_legacy_digits_up(2) [OF up2 num] d2 gone by simp
qed simp_all

theorem not_found_and_delete_once_witness:
  "fst (handle_song get_request 8 one_song) =
     Inr (Json (JObj [(''message'', JStr ''song not found'')]), NOT_FOUND)
   \<and> fst (handle_song (put_request (JObj [(''title'', JStr ''C'')])) 8 one_song) =
     Inr (Json (JObj [(''message'', JStr ''song not found'')]), NOT_FOUND)
   \<and> fst (delete_song_legacy ''8'' one_song) =
     Inr (Json (JObj [(''message'', JStr ''Song not found'')]), NOT_FOUND)
   \<and> fst (handle_song delete_request 7 one_song) = Inr (Text [], NO_CONTENT)
   \<and> docs (snd (handle_song delete_request 7 one_song)) = []
   \<and> fst (handle_song delete_request 7 (snd (handle_song delete_request 7 one_song))) =
     Inr (Json (JObj [(''message'', JStr ''song not found'')]), NOT_FOUND)
   \<and> fst (delete_song_legacy ''7'' (snd (delete_song_legacy ''7'' one_song))) =
     Inr (Json (JObj [(''message'', JStr ''Song not found'')]), NOT_FOUND)"
proof -
  let ?put = "put_request (JObj [(''title'', JStr ''C'')])"
  have up: "outages one_song = []" by (simp add: one_song_def)
  have eight: "py_int ''8'' = Inr 8" "bson_int 8"
    by (simp_all add: py_int_def is_decimal_char_def digit_value_def bson_int_def)
  have seven: "py_int ''7'' = Inr 7" "bson_int 7"
    by (simp_all add: py_int_def is_decimal_char_def digit_value_def bson_int_def)
  have get: "request_method get_request = GET" by (simp add: get_request_def)
  have put: "request_method ?put = PUT" "get_json ?put = JObj [(''title'', JStr ''C'')]"
    "[(''title'', JStr ''C'')] \<noteq> []" "storable (JObj [(''title'', JStr ''C'')])"
    "distinct (map fst [(''title'', JStr ''C'')])"
    by (simp_all add: put_request_def plain_key_def)
  have del: "request_method delete_request = DELETE" by (simp add: delete_request_def)
  have absent: "\<forall>x\<in>set (docs one_song). \<not> matches (ById (JInt 8)) x"
    by (simp add: one_song_def song7_def)
  have present: "docs one_song = [] @ song7 # [] \<and> matches (ById (JInt 7)) song7
      \<and> (\<forall>x\<in>set ([] @ []). \<not> matches (ById (JInt 7)) x)"
    by (simp add: one_song_def song7_def)
  show ?thesis
    using not_found_and_delete_once [OF up eight get put del, of "[]" song7 "[]"] absent
      not_found_and_delete_once [OF up seven get put del, of "[]" song7 "[]"] present
    by simp
qed

text \<open>
  The claim as stated, for every existing \<^verbatim>\<open>id\<close>, fails when two records share the
  \<^verbatim>\<open>id\<close>: \<^verbatim>\<open>delete_one\<close> removes the first match only. In \<open>same_id_twice\<close>, reached
  by two creates and one update, both deletes of \<^verbatim>\<open>id\<close> 2 answer 204, and a record
  with \<^verbatim>\<open>id\<close> 2 is still there after the first.
\<close>

theorem delete_twice_counterexample:
  "fst (handle_song delete_request 2 same_id_twice) = Inr (Text [], NO_CONTENT)
   \<and> fst (handle_song delete_request 2 (snd (handle_song delete_request 2 same_id_twice))) =
       Inr (Text [], NO_CONTENT)
   \<and> docs (snd (handle_song delete_request 2 same_id_twice)) =
       [\<lparr>doc_id = Oid 2, doc_fields = [(''id'', JInt 2)]\<rparr>]
   \<and> NO_CONTENT \<noteq> NOT_FOUND"
  by (simp add: same_id_twice_def sample_defs route_defs store_defs action_defs jsonify_def)

text \<open>
  The bound on \<open>n\<close> is needed: the driver cannot encode the filter for
  \<open>n = 2\<^sup>6\<^sup>3\<close>, so no route answers 404 for it. The exception leaves the \<^verbatim>\<open>GET\<close>
  branch of \<^verbatim>\<open>handle_song\<close> uncaught, \<^verbatim>\<open>get_song\<close> answers 400, and the update and
  delete routes answer 500.
\<close>

lemma unencodable_id_is_not_missing:
  "fst (handle_song get_request 9223372036854775808 no_songs) = Inl OverflowError
   \<and> fst (get_song ''9223372036854775808'' no_songs) =
       Inr (Json (JObj [(''error'', JStr ''Invalid song ID'')]), BAD_REQUEST)
   \<and> fst (handle_song (put_request (JObj [(''title'', JStr ''C'')])) 9223372036854775808 no_songs) =
       Inr (Json (JObj [(''error'', JStr ''Failed to update song'')]), INTERNAL_SERVER_ERROR)
   \<and> fst (handle_song delete_request 9223372036854775808 no_songs) =
       Inr (Json (JObj [(''error'', JStr ''Failed to delete song'')]), INTERNAL_SERVER_ERROR)
   \<and> fst (delete_song_legacy ''9223372036854775808'' no_songs) =
       Inr (Json (JObj [(''error'', JStr ''Failed to delete song'')]), INTERNAL_SERVER_ERROR)"
  by (simp add: sample_defs route_defs store_defs action_defs jsonify_def
      isdigit_def is_digit_char_def py_int_def is_decimal_char_def digit_value_def)

subsection \<open>Rejected requests\<close>

lemma store_op_docs_failed: "store_op c sem w = (Inl e, w') \<Longrightarrow> docs w' = docs w"
  by (auto simp: store_op_def split: sum.splits prod.splits list.splits option.splits)

lemma find_one_docs: "find_one f w = (r, w') \<Longrightarrow> docs w' = docs w"
  by (auto simp: find_one_def find_one_sem_def store_op_def split: list.splits option.splits)

lemma insert_and_fetch_status: "insert_and_fetch song w = (Inr (b, st), w') \<Longrightarrow> st = CREATED"
  by (auto simp: insert_and_fetch_def action_defs split: sum.splits prod.splits)

lemma create_song_rejected:
  assumes "fst (create_song req w) = Inr (b, st)" and "st = BAD_REQUEST \<or> st = FOUND"
  shows "docs (snd (create_song req w)) = docs w"
  using assms
  by (auto simp: create_song_def action_defs split: sum.splits prod.splits if_splits
      dest: insert_and_fetch_status find_one_docs)

lemma store_op_docs_read:
  "(\<And>ds. \<exists>x. sem ds = Inr (x, ds)) \<Longrightarrow> store_op c sem w = (r, w') \<Longrightarrow> docs w' = docs w"
proof -
  assume read: "\<And>ds. \<exists>x. sem ds = Inr (x, ds)" and run: "store_op c sem w = (r, w')"
  obtain x where "sem (docs w) = Inr (x, docs w)" using read by blast
  then show ?thesis
    using run by (auto simp: store_op_def split: list.splits option.splits)
qed

lemma find_all_docs: "find_all f w = (r, w') \<Longrightarrow> docs w' = docs w"
  using store_op_docs_read [of "find_sem f" "Find f" w r w']
  by (simp add: find_all_def find_sem_def)

lemma count_documents_docs: "count_documents f w = (r, w') \<Longrightarrow> docs w' = docs w"
  using store_op_docs_read [of count_sem "CountDocuments f" w r w']
  by (simp add: count_documents_def count_sem_def)

lemma handle_song_rejected:
  assumes "fst (handle_song req n w) = Inr (b, st)" and "st = BAD_REQUEST \<or> st = FOUND"
  shows "docs (snd (handle_song req n w)) = docs w"
  using assms
  by (auto simp: handle_song_def action_defs split: sum.splits prod.splits if_splits option.splits)

lemma update_song_legacy_rejected:
  assumes "fst (update_song_legacy req s w) = Inr (b, st)" and "st = BAD_REQUEST \<or> st = FOUND"
  shows "docs (snd (update_song_legacy req s w)) = docs w"
  using assms
  by (auto simp: update_song_legacy_def action_defs find_one_and_update_def
      split: sum.splits prod.splits if_splits option.splits dest: store_op_docs_failed)

lemma get_song_docs: "docs (snd (get_song s w)) = docs w"
  by (auto simp: get_song_def action_defs split: sum.splits prod.splits if_splits option.splits
      dest: find_one_docs)

lemma delete_song_legacy_rejected:
  assumes "fst (delete_song_legacy s w) = Inr (b, st)" and "st = BAD_REQUEST \<or> st = FOUND"
  shows "docs (snd (delete_song_legacy s w)) = docs w"
  using assms
  by (auto simp: delete_song_legacy_def action_defs split: sum.splits prod.splits if_splits)

lemma get_all_songs_docs: "docs (snd (get_all_songs w)) = docs w"
  by (auto simp: get_all_songs_def action_defs split: sum.splits prod.splits dest: find_all_docs)

lemma get_songs_docs: "docs (snd (get_songs w)) = docs w"
  by (auto simp: get_songs_def action_defs split: sum.splits prod.splits dest: find_all_docs)

lemma count_songs_docs: "docs (snd (count_songs w)) = docs w"
  by (auto simp: count_songs_def action_defs split: sum.splits prod.splits
      dest: count_documents_docs)

text \<open>
  C10. Whatever the store does: when create, update or any other route answers with
  status \<^verbatim>\<open>BAD_REQUEST\<close> or with the duplicate answer (status \<^verbatim>\<open>FOUND\<close>), the collection
  is as it was before the request. A create or update request with an empty or missing
  body is answered with \<^verbatim>\<open>BAD_REQUEST\<close> before any store call, and nothing is logged.
\<close>

theorem rejected_requests_change_nothing:
  assumes "st = BAD_REQUEST \<or> st = FOUND"
  shows "(fst (create_song req w) = Inr (b, st) \<longrightarrow> docs (snd (create_song req w)) = docs w)
       \<and> (fst (create_song_legacy req w) = Inr (b, st) \<longrightarrow>
            docs (snd (create_song_legacy req w)) = docs w)
       \<and> (fst (handle_songs req w) = Inr (b, st) \<longrightarrow> docs (snd (handle_songs req w)) = docs w)
       \<and> (fst (handle_song req n w) = Inr (b, st) \<longrightarrow> docs (snd (handle_song req n w)) = docs w)
       \<and> (fst (update_song_legacy req s w) = Inr (b, st) \<longrightarrow>
            docs (snd (update_song_legacy req s w)) = docs w)
       \<and> (fst (delete_song_legacy s w) = Inr (b, st) \<longrightarrow>
            docs (snd (delete_song_legacy s w)) = docs w)
       \<and> docs (snd (get_song s w)) = docs w
       \<and> docs (snd (get_songs w)) = docs w
       \<and> docs (snd (count_songs w)) = docs w
       \<and> (\<not> truthy (get_json req) \<longrightarrow>
            create_song req w =
              (Inr (Json (JObj [(''error'', JStr ''No input data provided'')]), BAD_REQUEST), w)
          \<and> update_song_legacy req s w =
              (Inr (Json (JObj [(''error'', JStr ''No input data provided'')]), BAD_REQUEST), w)
          \<and> (request_method req = PUT \<longrightarrow>
               handle_song req n w =
                 (Inr (Json (JObj [(''error'', JStr ''No input data provided'')]), BAD_REQUEST), w)))"
proof (intro conjI impI)
  show "docs (snd (create_song req w)) = docs w" if "fst (create_song req w) = Inr (b, st)"
    using that assms by (rule create_song_rejected)
  show "docs (snd (create_song_legacy req w)) = docs w"
    if "fst (create_song_legacy req w) = Inr (b, st)"
    using that assms create_song_rejected [of req w b st] by (simp add: create_song_legacy_def)
  show "docs (snd (handle_songs req w)) = docs w" if "fst (handle_songs req w) = Inr (b, st)"
    using that assms create_song_rejected [of req w b st] get_all_songs_docs [of w]
    by (simp add: handle_songs_def split: if_splits)
  show "docs (snd (handle_song req n w)) = docs w" if "fst (handle_song req n w) = Inr (b, st)"
    using that assms by (rule handle_song_rejected)
  show "docs (snd (update_song_legacy req s w)) = docs w"
    if "fst (update_song_legacy req s w) = Inr (b, st)"
    using that assms by (rule update_song_legacy_rejected)
  show "docs (snd (delete_song_legacy s w)) = docs w"
    if "fst (delete_song_legacy s w) = Inr (b, st)"
    using that assms by (rule delete_song_legacy_rejected)
  show "docs (snd (get_song s w)) = docs w" by (rule get_song_docs)
  show "docs (snd (get_songs w)) = docs w" by (rule get_songs_docs)
  show "docs (snd (count_songs w)) = docs w" by (rule count_songs_docs)
  show "create_song req w =
      (Inr (Json (JObj [(''error'', JStr ''No input data provided'')]), BAD_REQUEST), w)"
    if "\<not> truthy (get_json req)"
    using that by (simp add: create_song_def action_defs jsonify_def)
  show "update_song_legacy req s w =
      (Inr (Json (JObj [(''error'', JStr ''No input data provided'')]), BAD_REQUEST), w)"
    if "\<not> truthy (get_json req)"
    using that by (simp add: update_song_legacy_def action_defs jsonify_def)
  show "handle_song req n w =
      (Inr (Json (JObj [(''error'', JStr ''No input data provided'')]), BAD_REQUEST), w)"
    if "\<not> truthy (get_json req)" "request_method req = PUT"
    using that by (simp add: handle_song_def action_defs jsonify_def)
qed

theorem rejected_requests_change_nothing_witness:
  "create_song (post_request (JObj [])) one_song =
     (Inr (Json (JObj [(''error'', JStr ''No input data provided'')]), BAD_REQUEST), one_song)
   \<and> handle_song (put_request JNull) 7 one_song =
     (Inr (Json (JObj [(''error'', JStr ''No input data provided'')]), BAD_REQUEST), one_song)
   \<and> docs (snd (create_song (post_request (JObj [(''id'', JInt 7)])) one_song)) = [song7]"
proof -
  have dup: "fst (create_song (post_request (JObj [(''id'', JInt 7)])) one_song) =
      Inr (Json (JObj [(''Message'', JStr (''song with id '' @ py_str (JInt 7) @ '' already present''))]),
           FOUND)"
    by (simp add: sample_defs route_defs store_defs action_defs jsonify_def)
  have a: "\<not> truthy (get_json (post_request (JObj [])))" by (simp add: post_request_def)
  have b: "\<not> truthy (get_json (put_request JNull))" "request_method (put_request JNull) = PUT"
    by (simp_all add: put_request_def)
  have c: "FOUND = BAD_REQUEST \<or> FOUND = FOUND" by simp
  show ?thesis
    using rejected_requests_change_nothing [OF c, of "post_request (JObj [(''id'', JInt 7)])" one_song
        "Json (JObj [(''Message'', JStr (''song with id '' @ py_str (JInt 7) @ '' already present''))])"]
      rejected_requests_change_nothing [OF c, of "post_request (JObj [])" one_song]
      rejected_requests_change_nothing [OF c, of "put_request JNull" one_song _ 7]
      dup a b
    by (simp add: one_song_def)
qed

subsection \<open>The native key in returned documents\<close>

lemma store_op_answered: "store_op c sem w = (Inr x, w') \<Longrightarrow> sem (docs w) = Inr (x, docs w')"
  by (auto simp: store_op_def split: sum.splits prod.splits list.splits option.splits)

lemma find_one_answered:
  assumes "find_one f w = (Inr r, w')"
  shows "docs w' = docs w" and "r = find (matches f) (docs w)"
proof -
  have "find_one_sem f (docs w) = Inr (r, docs w')"
    using assms unfolding find_one_def by (rule store_op_answered)
  then show "docs w' = docs w" and "r = find (matches f) (docs w)"
    by (auto simp: find_one_sem_def split: option.splits)
qed

lemma find_in_set: "find P ds = Some d \<Longrightarrow> d \<in> set ds"
  by (induction ds) (auto split: if_splits)

lemma replace_first_member: "find P ds = Some d \<Longrightarrow> y \<in> set (replace_first P y ds)"
  by (induction ds) (auto split: if_splits)

lemma update_sem_member: "update_sem f upd ds = Inr (Some d, ds') \<Longrightarrow> d \<in> set ds'"
proof -
  assume sem: "update_sem f upd ds = Inr (Some d, ds')"
  have enc: "bson_error upd = None"
    using sem by (cases "bson_error upd") (simp_all add: update_sem_def)
  obtain kvs where upd: "upd = JObj kvs"
    using sem enc by (cases upd) (simp_all add: update_sem_def)
  have ok: "paths_ok kvs"
    using sem enc upd by (cases "paths_ok kvs") (simp_all add: update_sem_def)
  obtain d0 where d0: "find (matches f) ds = Some d0"
    using sem enc upd ok
    by (cases "find (matches f) ds") (auto simp: update_sem_def split: option.splits)
  have "ds' = replace_first (matches f) d ds"
    using sem enc upd ok d0 by (auto simp: update_sem_def split: sum.splits)
  then show ?thesis using replace_first_member [OF d0] by simp
qed

lemma update_answered:
  assumes "find_one_and_update f upd w = (Inr (Some d), w')"
  shows "d \<in> set (docs w')"
proof -
  have "update_sem f upd (docs w) = Inr (Some d, docs w')"
    using assms unfolding find_one_and_update_def by (rule store_op_answered)
  then show ?thesis by (rule update_sem_member)
qed

lemma insert_one_sem_member:
  "insert_one_sem kvs ds = Inr (k, ds') \<Longrightarrow> \<exists>d\<in>set ds'. doc_id d = k"
  by (auto simp: insert_one_sem_def split: option.splits if_splits)

lemma insert_answered:
  assumes run: "insert_one song w = (Inr k, w')"
  shows "\<exists>d. find (matches (ByKey k)) (docs w') = Some d"
proof -
  obtain kvs where song: "song = JObj kvs"
    using run by (cases song) (auto simp: insert_one_def lift_def)
  have "insert_one_sem kvs (docs w) = Inr (k, docs w')"
    using run unfolding song insert_one_def by (auto dest: store_op_answered)
  then obtain d where "d \<in> set (docs w')" "doc_id d = k"
    using insert_one_sem_member by blast
  then have "d \<in> set (docs w')" "matches (ByKey k) d" by simp_all
  then show ?thesis using find_matching [of d "docs w'" "matches (ByKey k)"] by blast
qed

lemma insert_and_fetch_document:
  assumes "insert_and_fetch song w = (Inr (Json j, st), w')"
  shows "\<exists>d\<in>set (docs w'). j = parse_json d"
proof -
  from assms obtain k w1 r where ins: "insert_one song w = (Inr k, w1)"
    and fetch: "find_one (ByKey k) w1 = (Inr r, w')" and j: "j = parse_json_opt r"
    by (auto simp: insert_and_fetch_def action_defs jsonify_def split: sum.splits prod.splits)
  obtain d where d: "find (matches (ByKey k)) (docs w1) = Some d"
    using insert_answered [OF ins] by blast
  have "docs w' = docs w1" "r = Some d"
    using find_one_answered [OF fetch] d by simp_all
  then show ?thesis using j find_in_set [OF d] by (auto simp: parse_json_opt_def)
qed

lemma create_song_inserted:
  assumes "create_song req w = (Inr (b, st), w')" and "st = OK \<or> st = CREATED"
  shows "\<exists>w1. insert_and_fetch (get_json req) w1 = (Inr (b, st), w')"
proof -
  have t: "truthy (get_json req)"
  proof (rule ccontr)
    assume "\<not> truthy (get_json req)"
    then show False using assms by (auto simp: create_song_def action_defs)
  qed
  show ?thesis
  proof (cases "py_in ''id'' (get_json req)")
    case (Inl e)
    then show ?thesis using assms t by (auto simp: create_song_def action_defs)
  next
    case (Inr has_id)
    show ?thesis
    proof (cases has_id)
      case False
      then show ?thesis
        using assms t Inr
        by (auto simp: create_song_def action_defs split: sum.splits prod.splits)
    next
      case True
      show ?thesis
      proof (cases "getitem (get_json req) ''id''")
        case (Inl e)
        then show ?thesis using assms t Inr True by (auto simp: create_song_def action_defs)
      next
        case v: (Inr v)
        obtain r w1 where f: "find_one (ById v) w = (r, w1)" by (cases "find_one (ById v) w")
        show ?thesis
        proof (cases r)
          case (Inl e)
          then show ?thesis
            using assms t Inr True v f by (auto simp: create_song_def action_defs)
        next
          case found: (Inr existing_song)
          show ?thesis
          proof (cases existing_song)
            case None
            then show ?thesis
              using assms t Inr True v f found
              by (cases "insert_and_fetch (get_json req) w1")
                (auto simp: create_song_def action_defs split: sum.splits)
          next
            case (Some d)
            then show ?thesis
              using assms t Inr True v f found by (auto simp: create_song_def action_defs)
          qed
        qed
      qed
    qed
  qed
qed

lemma create_song_document:
  assumes "fst (create_song req w) = Inr (Json j, st)" and "st = OK \<or> st = CREATED"
  shows "\<exists>d\<in>set (docs (snd (create_song req w))). j = parse_json d"
proof -
  have "create_song req w = (Inr (Json j, st), snd (create_song req w))"
    using assms(1) by (cases "create_song req w") simp
  from create_song_inserted [OF this assms(2)] obtain w1
    where "insert_and_fetch (get_json req) w1 = (Inr (Json j, st), snd (create_song req w))"
    by blast
  then show ?thesis by (rule insert_and_fetch_document)
qed

lemma find_one_found: "find_one f w = (Inr (Some d), w') \<Longrightarrow> d \<in> set (docs w')"
  using find_one_answered [of f w "Some d" w'] find_in_set [of "matches f" "docs w" d] by simp

lemma handle_song_document:
  assumes "fst (handle_song req n w) = Inr (Json j, st)" and "st = OK \<or> st = CREATED"
  shows "\<exists>d\<in>set (docs (snd (handle_song req n w))). j = parse_json d"
  using assms
  by (auto simp: handle_song_def action_defs jsonify_def
      split: sum.splits prod.splits if_splits option.splits
      dest: update_answered find_one_found)

lemma get_song_document:
  assumes "fst (get_song s w) = Inr (Json j, st)" and "st = OK \<or> st = CREATED"
  shows "\<exists>d\<in>set (docs (snd (get_song s w))). j = parse_json d"
  using assms
  by (auto simp: get_song_def action_defs jsonify_def
      split: sum.splits prod.splits if_splits option.splits
      dest: find_one_found)

lemma update_song_legacy_document:
  assumes "fst (update_song_legacy req s w) = Inr (Json j, st)" and "st = OK \<or> st = CREATED"
  shows "\<exists>d\<in>set (docs (snd (update_song_legacy req s w))). j = parse_json d"
  using assms
  by (auto simp: update_song_legacy_def action_defs jsonify_def
      split: sum.splits prod.splits if_splits option.splits
      dest: update_answered)

lemma find_all_answered:
  assumes "find_all Everything w = (Inr r, w')"
  shows "r = docs w"
proof -
  have "find_sem Everything (docs w) = Inr (r, docs w')"
    using assms unfolding find_all_def by (rule store_op_answered)
  then show ?thesis by (auto simp: find_sem_def)
qed

lemma list_documents:
  "fst (get_all_songs w) = Inr (Json j, OK) \<Longrightarrow>
     j = JObj [(''songs'', JArr (map parse_json (docs w)))]"
  "fst (get_songs w) = Inr (Json j, OK) \<Longrightarrow> j = JArr (map parse_json (docs w))"
  by (auto simp: get_all_songs_def get_songs_def action_defs jsonify_def parse_json_list_def
      split: sum.splits prod.splits dest: find_all_answered)

lemma hex24_digits: "length (hex24 k) = 24 \<and> set (hex24 k) \<subseteq> set ''0123456789abcdef''"
proof -
  have "digit_char (m mod 16) \<in> set ''0123456789abcdef''" for m
    unfolding digit_char_def by (rule nth_mem) simp
  then show ?thesis by (auto simp: hex24_def)
qed

lemma hex24_one: "hex24 1 = ''000000000000000000000001''"
  by (simp add: hex24_def digit_char_def upt_rec)

text \<open>
  C5, as amended. Whatever the store does: the body of every answer of the list routes
  with status 200 is the array of \<^verbatim>\<open>parse_json\<close> of all records, and the body of
  every answer of get, create and update with status 200 or 201 is \<^verbatim>\<open>parse_json\<close> of
  a record of the collection. Such a body carries the native key under \<^verbatim>\<open>_id\<close> as
  \<^verbatim>\<open>json_util\<close> writes it: for a key the store assigned, the object with the single
  field \<^verbatim>\<open>$oid\<close> holding the 24 lower-case hexadecimal digits of the key; for a key
  the client supplied at creation, the supplied value.
\<close>

theorem returned_documents_show_key:
  "(fst (get_all_songs w) = Inr (Json j, OK) \<longrightarrow>
      j = JObj [(''songs'', JArr (map parse_json (docs w)))])
   \<and> (fst (get_songs w) = Inr (Json j, OK) \<longrightarrow> j = JArr (map parse_json (docs w)))
   \<and> (fst (handle_song req n w) = Inr (Json j, st) \<and> (st = OK \<or> st = CREATED) \<longrightarrow>
        (\<exists>d\<in>set (docs (snd (handle_song req n w))). j = parse_json d))
   \<and> (fst (get_song s w) = Inr (Json j, st) \<and> (st = OK \<or> st = CREATED) \<longrightarrow>
        (\<exists>d\<in>set (docs (snd (get_song s w))). j = parse_json d))
   \<and> (fst (create_song req w) = Inr (Json j, st) \<and> (st = OK \<or> st = CREATED) \<longrightarrow>
        (\<exists>d\<in>set (docs (snd (create_song req w))). j = parse_json d))
   \<and> (fst (update_song_legacy req s w) = Inr (Json j, st) \<and> (st = OK \<or> st = CREATED) \<longrightarrow>
        (\<exists>d\<in>set (docs (snd (update_song_legacy req s w))). j = parse_json d))
   \<and> getitem (parse_json d) ''_id'' = Inr (render_key (doc_id d))
   \<and> render_key (Oid k) = JObj [(''$oid'', JStr (hex24 k))]
   \<and> length (hex24 k) = 24
   \<and> set (hex24 k) \<subseteq> set ''0123456789abcdef''
   \<and> render_key (Supplied v) = v"
proof (intro conjI impI)
  show "j = JObj [(''songs'', JArr (map parse_json (docs w)))]"
    if "fst (get_all_songs w) = Inr (Json j, OK)"
    using that by (rule list_documents(1))
  show "j = JArr (map parse_json (docs w))" if "fst (get_songs w) = Inr (Json j, OK)"
    using that by (rule list_documents(2))
  show "\<exists>d\<in>set (docs (snd (handle_song req n w))). j = parse_json d"
    if "fst (handle_song req n w) = Inr (Json j, st) \<and> (st = OK \<or> st = CREATED)"
    using that handle_song_document by blast
  show "\<exists>d\<in>set (docs (snd (get_song s w))). j = parse_json d"
    if "fst (get_song s w) = Inr (Json j, st) \<and> (st = OK \<or> st = CREATED)"
    using that get_song_document by blast
  show "\<exists>d\<in>set (docs (snd (create_song req w))). j = parse_json d"
    if "fst (create_song req w) = Inr (Json j, st) \<and> (st = OK \<or> st = CREATED)"
    using that create_song_document by blast
  show "\<exists>d\<in>set (docs (snd (update_song_legacy req s w))). j = parse_json d"
    if "fst (update_song_legacy req s w) = Inr (Json j, st) \<and> (st = OK \<or> st = CREATED)"
    using that update_song_legacy_document by blast
  show "getitem (parse_json d) ''_id'' = Inr (render_key (doc_id d))"
    by (simp add: parse_json_def)
  show "length (hex24 k) = 24" "set (hex24 k) \<subseteq> set ''0123456789abcdef''"
    using hex24_digits [of k] by simp_all
qed simp_all

theorem returned_documents_show_key_witness:
  "\<exists>d\<in>set (docs (snd (handle_song get_request 7 one_song))).
      Json (parse_json song7) = Json (parse_json d)
      \<and> getitem (parse_json d) ''_id'' = Inr (JObj [(''$oid'', JStr (hex24 1))])"
proof -
  have got: "fst (handle_song get_request 7 one_song) = Inr (Json (parse_json song7), OK)
      \<and> (OK = OK \<or> OK = CREATED)"
    by (simp add: sample_defs route_defs store_defs action_defs jsonify_def)
  have key: "doc_id song7 = Oid 1" by (simp add: song7_def)
  note inst = returned_documents_show_key [of one_song "parse_json song7" get_request 7 OK "''7''"
      song7 1 JNull]
  from inst got obtain d where d: "d \<in> set (docs (snd (handle_song get_request 7 one_song)))"
    "parse_json song7 = parse_json d"
    by blast
  from inst have "getitem (parse_json song7) ''_id'' = Inr (render_key (doc_id song7))"
    "render_key (Oid 1) = JObj [(''$oid'', JStr (hex24 1))]"
    by blast+
  then show ?thesis using d key by (intro bexI [of _ d]) simp_all
qed

text \<open>
  The claim as stated, that the key is rendered as a plain string, fails on the first
  document created in an empty collection: its \<^verbatim>\<open>_id\<close> is an object, not a string.
\<close>

theorem native_key_counterexample:
  "fst (create_song (post_request (JObj [(''title'', JStr ''A'')])) no_songs) =
     Inr (Json (JObj [(''_id'', JObj [(''$oid'', JStr ''000000000000000000000001'')]),
                      (''title'', JStr ''A'')]), CREATED)
   \<and> getitem (JObj [(''_id'', JObj [(''$oid'', JStr ''000000000000000000000001'')]),
                    (''title'', JStr ''A'')]) ''_id'' =
       Inr (JObj [(''$oid'', JStr ''000000000000000000000001'')])
   \<and> JObj [(''$oid'', JStr ''000000000000000000000001'')] \<noteq> JStr ''000000000000000000000001''"
  using hex24_one
  by (simp add: sample_defs route_defs store_defs action_defs jsonify_def parse_json_opt_def
      parse_json_def)

subsection \<open>Store failures\<close>

lemma careful_succeed: "careful (succeed x)"
  by (simp add: careful_def succeed_def)

lemma careful_lift: "careful (lift r)"
  by (simp add: careful_def lift_def)

lemma careful_store_op: "careful (store_op c sem)"
  by (auto simp: careful_def store_op_def split: sum.splits prod.splits list.splits option.splits)

lemma careful_then_do:
  assumes "careful m" and "\<And>x. careful (f x)"
  shows "careful (then_do m f)"
  unfolding careful_def
proof (intro allI impI)
  fix w r w'
  assume run: "then_do m f w = (r, w')"
  obtain r1 w1 where m: "m w = (r1, w1)" by (cases "m w")
  from assms(1) m obtain es1 where es1: "trace w1 = trace w @ es1" "log w1 = log w"
    "list_ex (\<lambda>(c, r). r \<noteq> None) es1 \<longrightarrow> (\<exists>e. r1 = Inl e)"
    unfolding careful_def by blast
  show "\<exists>es. trace w' = trace w @ es \<and> log w' = log w
           \<and> (list_ex (\<lambda>(c, r). r \<noteq> None) es \<longrightarrow> (\<exists>e. r = Inl e))"
  proof (cases r1)
    case (Inl e)
    then have "r = Inl e" "w' = w1" using run m by (simp_all add: then_do_def)
    then show ?thesis using es1 by auto
  next
    case (Inr x)
    then have f: "f x w1 = (r, w')" using run m by (simp add: then_do_def)
    from assms(2) [of x] f obtain es2 where es2: "trace w' = trace w1 @ es2" "log w' = log w1"
      "list_ex (\<lambda>(c, r). r \<noteq> None) es2 \<longrightarrow> (\<exists>e. r = Inl e)"
      unfolding careful_def by blast
    have clean: "\<not> list_ex (\<lambda>(c, r). r \<noteq> None) es1" using es1(3) Inr by auto
    have "trace w' = trace w @ (es1 @ es2)" "log w' = log w" using es1 es2 by simp_all
    moreover have "list_ex (\<lambda>(c, r). r \<noteq> None) (es1 @ es2) \<longrightarrow> (\<exists>e. r = Inl e)"
      using clean es2(3) by (simp add: list_ex_append)
    ultimately show ?thesis by blast
  qed
qed

lemma caught_by_handler:
  assumes body: "careful m"
    and failed: "store_failed w (snd (try_except m
        (\<lambda>e. then_do (logger_error msg e) (\<lambda>_. succeed resp)) w))"
  shows "fst (try_except m (\<lambda>e. then_do (logger_error msg e) (\<lambda>_. succeed resp)) w) = Inr resp
       \<and> (\<exists>e. log (snd (try_except m (\<lambda>e. then_do (logger_error msg e) (\<lambda>_. succeed resp)) w)) =
              log w @ [(msg, e)])"
proof -
  obtain r1 w1 where m: "m w = (r1, w1)" by (cases "m w")
  from body m obtain es where es: "trace w1 = trace w @ es" "log w1 = log w"
    "list_ex (\<lambda>(c, r). r \<noteq> None) es \<longrightarrow> (\<exists>e. r1 = Inl e)"
    unfolding careful_def by blast
  show ?thesis
  proof (cases r1)
    case (Inl e)
    then show ?thesis using m es by (simp add: action_defs)
  next
    case (Inr x)
    then have "snd (try_except m (\<lambda>e. then_do (logger_error msg e) (\<lambda>_. succeed resp)) w) = w1"
      using m by (simp add: action_defs)
    then have "list_ex (\<lambda>(c, r). r \<noteq> None) es"
      using failed es(1) by (simp add: store_failed_def)
    then show ?thesis using es(3) Inr by auto
  qed
qed

lemma careful_if: "careful a \<Longrightarrow> careful b \<Longrightarrow> careful (if c then a else b)"
  by simp

lemma careful_case_option:
  "careful a \<Longrightarrow> (\<And>x. careful (f x)) \<Longrightarrow> careful (case r of None \<Rightarrow> a | Some x \<Rightarrow> f x)"
  by (cases r) simp_all

lemma careful_case_sum:
  "(\<And>x. careful (f x)) \<Longrightarrow> (\<And>y. careful (g y)) \<Longrightarrow>
   careful (case r of Inl x \<Rightarrow> f x | Inr y \<Rightarrow> g y)"
  by (cases r) simp_all

lemma careful_insert_one: "careful (insert_one song)"
  by (cases song) (simp_all add: insert_one_def careful_store_op careful_lift)

lemmas careful_intros = careful_succeed careful_lift careful_store_op careful_then_do careful_if
  careful_case_option careful_case_sum careful_insert_one

lemma count_songs_failure:
  assumes "store_failed w (snd (count_songs w))"
  shows "fst (count_songs w) =
           Inr (Json (JObj [(''error'', JStr ''Internal server error'')]), INTERNAL_SERVER_ERROR)
       \<and> (\<exists>e. log (snd (count_songs w)) = log w @ [(''Error counting songs: '', e)])"
proof -
  have "careful (then_do (count_documents Everything) (\<lambda>count.
          succeed (jsonify (JObj [(''count'', JInt (int count))]), OK)))"
    unfolding count_documents_def by (intro careful_intros)
  from caught_by_handler [OF this] assms show ?thesis
    unfolding count_songs_def jsonify_def by blast
qed

lemma list_failure:
  assumes "store_failed w (snd (get_all_songs w))"
  shows "fst (get_all_songs w) =
           Inr (Json (JObj [(''error'', JStr ''Internal server error'')]), INTERNAL_SERVER_ERROR)
       \<and> (\<exists>e. log (snd (get_all_songs w)) = log w @ [(''Error fetching songs: '', e)])"
proof -
  have "careful (then_do (find_all Everything) (\<lambda>songs.
          succeed (jsonify (JObj [(''songs'', parse_json_list songs)]), OK)))"
    unfolding find_all_def by (intro careful_intros)
  from caught_by_handler [OF this] assms show ?thesis
    unfolding get_all_songs_def jsonify_def by blast
qed

lemma bare_list_failure:
  assumes "store_failed w (snd (get_songs w))"
  shows "fst (get_songs w) =
           Inr (Json (JObj [(''error'', JStr ''Internal server error'')]), INTERNAL_SERVER_ERROR)
       \<and> (\<exists>e. log (snd (get_songs w)) = log w @ [(''Error fetching songs: '', e)])"
proof -
  have "careful (then_do (find_all Everything) (\<lambda>songs.
          succeed (jsonify (parse_json_list songs), OK)))"
    unfolding find_all_def by (intro careful_intros)
  from caught_by_handler [OF this] assms show ?thesis
    unfolding get_songs_def jsonify_def by blast
qed

lemma careful_insert_and_fetch: "careful (insert_and_fetch song)"
  unfolding insert_and_fetch_def find_one_def by (intro careful_intros)

lemma create_song_failure:
  assumes "store_failed w (snd (create_song req w))"
  shows "fst (create_song req w) =
           Inr (Json (JObj [(''error'', JStr ''Failed to create song'')]), INTERNAL_SERVER_ERROR)
       \<and> (\<exists>e. log (snd (create_song req w)) = log w @ [(''Error creating song: '', e)])"
  using assms unfolding create_song_def jsonify_def
  by (intro caught_by_handler) (intro careful_intros careful_insert_and_fetch, simp_all add: find_one_def careful_intros careful_insert_and_fetch)

lemma handle_song_put_failure:
  assumes "request_method req = PUT" and "store_failed w (snd (handle_song req n w))"
  shows "fst (handle_song req n w) =
           Inr (Json (JObj [(''error'', JStr ''Failed to update song'')]), INTERNAL_SERVER_ERROR)
       \<and> (\<exists>e. log (snd (handle_song req n w)) = log w @ [(''Error updating song: '', e)])"
  using assms(2) unfolding handle_song_def jsonify_def find_one_and_update_def
  by (simp only: assms(1) if_True simp_thms) (intro caught_by_handler careful_intros)

lemma handle_song_delete_failure:
  assumes "request_method req = DELETE" and "store_failed w (snd (handle_song req n w))"
  shows "fst (handle_song req n w) =
           Inr (Json (JObj [(''error'', JStr ''Failed to delete song'')]), INTERNAL_SERVER_ERROR)
       \<and> (\<exists>e. log (snd (handle_song req n w)) = log w @ [(''Error deleting song: '', e)])"
  using assms(2) unfolding handle_song_def jsonify_def delete_one_def
  by (simp only: assms(1) if_True if_False simp_thms http_method.distinct)
    (intro caught_by_handler careful_intros)

lemma update_song_legacy_digits_failure:
  assumes "isdigit s" and "store_failed w (snd (update_song_legacy req s w))"
  shows "fst (update_song_legacy req s w) =
           Inr (Json (JObj [(''error'', JStr ''Failed to update song'')]), INTERNAL_SERVER_ERROR)
       \<and> (\<exists>e. log (snd (update_song_legacy req s w)) = log w @ [(''Error updating song: '', e)])"
  using assms(2) unfolding update_song_legacy_def jsonify_def find_one_and_update_def
  by (simp only: assms(1) if_True simp_thms) (intro caught_by_handler careful_intros)

lemma delete_song_legacy_digits_failure:
  assumes "isdigit s" and "store_failed w (snd (delete_song_legacy s w))"
  shows "fst (delete_song_legacy s w) =
           Inr (Json (JObj [(''error'', JStr ''Failed to delete song'')]), INTERNAL_SERVER_ERROR)
       \<and> (\<exists>e. log (snd (delete_song_legacy s w)) = log w @ [(''Error deleting song: '', e)])"
  using assms(2) unfolding delete_song_legacy_def jsonify_def delete_one_def
  by (simp only: assms(1) if_True simp_thms) (intro caught_by_handler careful_intros)

lemma get_song_digits_failure:
  assumes "isdigit s" and "store_failed w (snd (get_song s w))"
  shows "fst (get_song s w) = Inr (Json (JObj [(''error'', JStr ''Invalid song ID'')]), BAD_REQUEST)
       \<and> (\<exists>e. log (snd (get_song s w)) = log w @ [(''Invalid song ID: '' @ s @ '', error: '', e)])"
  using assms(2) unfolding get_song_def jsonify_def find_one_def
  by (simp only: assms(1) if_True simp_thms) (intro caught_by_handler careful_intros)

lemma get_song_key_failure:
  assumes "\<not> isdigit s" and "store_failed w (snd (get_song s w))"
  shows "fst (get_song s w) = Inr (Json (JObj [(''message'', JStr ''Song not found'')]), NOT_FOUND)
       \<and> log (snd (get_song s w)) = log w"
  using assms
  by (cases "ObjectId s")
    (auto simp: get_song_def action_defs store_failed_def find_one_def store_op_def
      find_one_sem_def jsonify_def split: list.splits option.splits)

lemma update_song_legacy_key_failure:
  assumes "\<not> isdigit s" and "store_failed w (snd (update_song_legacy req s w))"
  shows "fst (update_song_legacy req s w) =
           Inr (Json (JObj [(''error'', JStr ''Invalid song ID format'')]), BAD_REQUEST)
       \<and> log (snd (update_song_legacy req s w)) = log w"
  using assms
  by (cases "ObjectId s"; cases "truthy (get_json req)";
      cases "update_sem (ByKey (Oid (projr (ObjectId s)))) (get_json req) (docs w)")
    (auto simp: update_song_legacy_def action_defs store_failed_def find_one_and_update_def
      store_op_def jsonify_def split: list.splits option.splits)

lemma delete_song_legacy_key_failure:
  assumes "\<not> isdigit s" and "store_failed w (snd (delete_song_legacy s w))"
  shows "fst (delete_song_legacy s w) =
           Inr (Json (JObj [(''message'', JStr ''Song not found'')]), NOT_FOUND)
       \<and> log (snd (delete_song_legacy s w)) = log w"
  using assms
  by (cases "ObjectId s")
    (auto simp: delete_song_legacy_def action_defs store_failed_def delete_one_def store_op_def
      delete_sem_def jsonify_def split: list.splits option.splits)

lemma store_down_failures:
  "store_failed store_down (snd (count_songs store_down))"
  "store_failed store_down (snd (create_song (post_request (JObj [(''id'', JInt 8)])) store_down))"
  "store_failed store_down (snd (get_song ''7'' store_down))"
  "store_failed store_down (snd (get_song ''0123456789abcdef01234567'' store_down))"
  "isdigit ''7''" "\<not> isdigit ''0123456789abcdef01234567''"
  by (simp_all add: store_down_def sample_defs route_defs store_defs action_defs jsonify_def
      store_failed_def isdigit_def is_digit_char_def is_decimal_char_def py_int_def
      digit_value_def ObjectId_def hex_value_def)

text \<open>
  C6, as amended. When a store call of the operation raises: count, both list routes,
  create, update and delete by numeric id, and update and delete on the flexible route
  with an all-digit id answer with status 500 and a body with the single field
  \<^verbatim>\<open>error\<close>, and log one line. On the flexible route, get with an all-digit id
  answers 400 and logs one line; with any other id the failure of the native-key call
  is absorbed by the inner handler and nothing is logged: get and delete answer 404,
  update answers 400. (Get by numeric id is not part of the statement.)
\<close>

theorem store_failures_are_answered:
  "(store_failed w (snd (count_songs w)) \<longrightarrow>
      fst (count_songs w) =
        Inr (Json (JObj [(''error'', JStr ''Internal server error'')]), INTERNAL_SERVER_ERROR)
      \<and> (\<exists>e. log (snd (count_songs w)) = log w @ [(''Error counting songs: '', e)]))
   \<and> (store_failed w (snd (get_all_songs w)) \<longrightarrow>
      fst (get_all_songs w) =
        Inr (Json (JObj [(''error'', JStr ''Internal server error'')]), INTERNAL_SERVER_ERROR)
      \<and> (\<exists>e. log (snd (get_all_songs w)) = log w @ [(''Error fetching songs: '', e)]))
   \<and> (store_failed w (snd (get_songs w)) \<longrightarrow>
      fst (get_songs w) =
        Inr (Json (JObj [(''error'', JStr ''Internal server error'')]), INTERNAL_SERVER_ERROR)
      \<and> (\<exists>e. log (snd (get_songs w)) = log w @ [(''Error fetching songs: '', e)]))
   \<and> (store_failed w (snd (create_song req w)) \<longrightarrow>
      fst (create_song req w) =
        Inr (Json (JObj [(''error'', JStr ''Failed to create song'')]), INTERNAL_SERVER_ERROR)
      \<and> (\<exists>e. log (snd (create_song req w)) = log w @ [(''Error creating song: '', e)]))
   \<and> (request_method req = PUT \<and> store_failed w (snd (handle_song req n w)) \<longrightarrow>
      fst (handle_song req n w) =
        Inr (Json (JObj [(''error'', JStr ''Failed to update song'')]), INTERNAL_SERVER_ERROR)
      \<and> (\<exists>e. log (snd (handle_song req n w)) = log w @ [(''Error updating song: '', e)]))
   \<and> (request_method req = DELETE \<and> store_failed w (snd (handle_song req n w)) \<longrightarrow>
      fst (handle_song req n w) =
        Inr (Json (JObj [(''error'', JStr ''Failed to delete song'')]), INTERNAL_SERVER_ERROR)
      \<and> (\<exists>e. log (snd (handle_song req n w)) = log w @ [(''Error deleting song: '', e)]))
   \<and> (isdigit s \<and> store_failed w (snd (update_song_legacy req s w)) \<longrightarrow>
      fst (update_song_legacy req s w) =
        Inr (Json (JObj [(''error'', JStr ''Failed to update song'')]), INTERNAL_SERVER_ERROR)
      \<and> (\<exists>e. log (snd (update_song_legacy req s w)) = log w @ [(''Error updating song: '', e)]))
   \<and> (isdigit s \<and> store_failed w (snd (delete_song_legacy s w)) \<longrightarrow>
      fst (delete_song_legacy s w) =
        Inr (Json (JObj [(''error'', JStr ''Failed to delete song'')]), INTERNAL_SERVER_ERROR)
      \<and> (\<exists>e. log (snd (delete_song_legacy s w)) = log w @ [(''Error deleting song: '', e)]))
   \<and> (isdigit s \<and> store_failed w (snd (get_song s w)) \<longrightarrow>
      fst (get_song s w) = Inr (Json (JObj [(''error'', JStr ''Invalid song ID'')]), BAD_REQUEST)
      \<and> (\<exists>e. log (snd (get_song s w)) =
             log w @ [(''Invalid song ID: '' @ s @ '', error: '', e)]))
   \<and> (\<not> isdigit s \<and> store_failed w (snd (get_song s w)) \<longrightarrow>
      fst (get_song s w) = Inr (Json (JObj [(''message'', JStr ''Song not found'')]), NOT_FOUND)
      \<and> log (snd (get_song s w)) = log w)
   \<and> (\<not> isdigit s \<and> store_failed w (snd (update_song_legacy req s w)) \<longrightarrow>
      fst (update_song_legacy req s w) =
        Inr (Json (JObj [(''error'', JStr ''Invalid song ID format'')]), BAD_REQUEST)
      \<and> log (snd (update_song_legacy req s w)) = log w)
   \<and> (\<not> isdigit s \<and> store_failed w (snd (delete_song_legacy s w)) \<longrightarrow>
      fst (delete_song_legacy s w) =
        Inr (Json (JObj [(''message'', JStr ''Song not found'')]), NOT_FOUND)
      \<and> log (snd (delete_song_legacy s w)) = log w)"
  by (intro conjI; intro impI; (elim conjE)?;
      (rule count_songs_failure list_failure bare_list_failure create_song_failure
        handle_song_put_failure handle_song_delete_failure update_song_legacy_digits_failure
        delete_song_legacy_digits_failure get_song_digits_failure get_song_key_failure
        update_song_legacy_key_failure delete_song_legacy_key_failure; assumption))

theorem store_failures_are_answered_witness:
  "fst (count_songs store_down) =
     Inr (Json (JObj [(''error'', JStr ''Internal server error'')]), INTERNAL_SERVER_ERROR)
   \<and> (\<exists>e. log (snd (count_songs store_down)) = [(''Error counting songs: '', e)])
   \<and> fst (create_song (post_request (JObj [(''id'', JInt 8)])) store_down) =
     Inr (Json (JObj [(''error'', JStr ''Failed to create song'')]), INTERNAL_SERVER_ERROR)
   \<and> fst (get_song ''7'' store_down) =
     Inr (Json (JObj [(''error'', JStr ''Invalid song ID'')]), BAD_REQUEST)
   \<and> fst (get_song ''0123456789abcdef01234567'' store_down) =
     Inr (Json (JObj [(''message'', JStr ''Song not found'')]), NOT_FOUND)"
proof -
  have empty: "log store_down = []" by (simp add: store_down_def)
  note digits =
    store_failures_are_answered [of store_down "post_request (JObj [(''id'', JInt 8)])" 0 "''7''"]
  note key =
    store_failures_are_answered [of store_down "post_request (JObj [(''id'', JInt 8)])" 0
      "''0123456789abcdef01234567''"]
  note counted = digits [THEN conjunct1, THEN mp, OF store_down_failures(1)]
  note created =
    digits [THEN conjunct2, THEN conjunct2, THEN conjunct2, THEN conjunct1, THEN mp,
      OF store_down_failures(2)]
  note by_digits =
    digits [THEN conjunct2, THEN conjunct2, THEN conjunct2, THEN conjunct2, THEN conjunct2,
      THEN conjunct2, THEN conjunct2, THEN conjunct2, THEN conjunct1, THEN mp,
      OF conjI [OF store_down_failures(5) store_down_failures(3)]]
  note by_key =
    key [THEN conjunct2, THEN conjunct2, THEN conjunct2, THEN conjunct2, THEN conjunct2,
      THEN conjunct2, THEN conjunct2, THEN conjunct2, THEN conjunct2, THEN conjunct1, THEN mp,
      OF conjI [OF store_down_failures(6) store_down_failures(4)]]
  show ?thesis
    using counted created by_digits by_key empty by simp
qed

text \<open>
  The claim as stated, that every operation turns a store failure into an
  internal-error answer, fails on \<^verbatim>\<open>GET /songs/7\<close>: the handler's own \<^verbatim>\<open>except\<close>
  clause answers 400.
\<close>

theorem store_failure_counterexample:
  "fst (get_song ''7'' store_down) =
     Inr (Json (JObj [(''error'', JStr ''Invalid song ID'')]), BAD_REQUEST)
   \<and> trace (snd (get_song ''7'' store_down)) =
       [(FindOne (ById (JInt 7)), Some (PyMongoError ''down''))]
   \<and> BAD_REQUEST \<noteq> INTERNAL_SERVER_ERROR"
  by (simp add: store_down_def sample_defs route_defs store_defs action_defs jsonify_def
      isdigit_def is_digit_char_def is_decimal_char_def py_int_def digit_value_def)

text \<open>
  \<^verbatim>\<open>GET /song/<n>\<close> is the one branch of \<^verbatim>\<open>handle_song\<close> without a
  \<^verbatim>\<open>try ... except\<close>: a store failure there leaves the handler as an exception, and
  the handler logs nothing.
\<close>

lemma numeric_get_failure_escapes:
  "fst (handle_song get_request 7 store_down) = Inl (PyMongoError ''down'')
   \<and> log (snd (handle_song get_request 7 store_down)) = []"
  by (simp add: store_down_def sample_defs route_defs store_defs action_defs jsonify_def)

section \<open>Resolving the path segment of the flexible routes\<close>

text \<open>
  C1, as amended. On \<^verbatim>\<open>GET\<close>, \<^verbatim>\<open>PUT\<close> and \<^verbatim>\<open>DELETE /songs/<s>\<close>: when \<open>s\<close> consists of
  decimal digits that \<^verbatim>\<open>int\<close> reads as an integer \<open>n\<close>, and \<open>n\<close> fits in 64 bits, the
  routes act, while the store answers, on the first record that matches the filter
  \<^verbatim>\<open>{"id": n}\<close>. When \<open>s\<close> is not a string of digits and is a native key \<open>k\<close> (24
  hexadecimal digits), they act on the record with key \<open>k\<close>; \<^verbatim>\<open>PUT\<close> answers 400
  when the store refuses the update. When \<open>s\<close> is not a string of digits, holds no
  white space and is no native key, \<^verbatim>\<open>GET\<close> and \<^verbatim>\<open>DELETE\<close> answer 404 and \<^verbatim>\<open>PUT\<close>
  answers 400; the collection is left as it was and nothing is logged.
\<close>

theorem flexible_id_resolution:
  "(outages w = [] \<and> py_int s = Inr n \<and> bson_int n \<longrightarrow>
      fst (get_song s w) =
        Inr (lookup_reply ''Song not found'' (find (matches (ById (JInt n))) (docs w)))
      \<and> docs (snd (get_song s w)) = docs w
      \<and> fst (delete_song_legacy s w) =
          Inr (if find (matches (ById (JInt n))) (docs w) = None
               then (Json (JObj [(''message'', JStr ''Song not found'')]), NOT_FOUND)
               else (Text [], NO_CONTENT))
      \<and> docs (snd (delete_song_legacy s w)) =
          (if find (matches (ById (JInt n))) (docs w) = None then docs w
           else remove_first (matches (ById (JInt n))) (docs w))
      \<and> (truthy (get_json req) \<longrightarrow>
           fst (update_song_legacy req s w) =
             update_reply (update_sem (ById (JInt n)) (get_json req) (docs w))
           \<and> docs (snd (update_song_legacy req s w)) =
               (case update_sem (ById (JInt n)) (get_json req) (docs w) of
                  Inl e \<Rightarrow> docs w | Inr (r, ds) \<Rightarrow> ds)))
   \<and> (outages w = [] \<and> \<not> isdigit s \<and> ObjectId s = Inr k \<longrightarrow>
      fst (get_song s w) =
        Inr (lookup_reply ''Song not found'' (find (matches (ByKey (Oid k))) (docs w)))
      \<and> docs (snd (get_song s w)) = docs w
      \<and> fst (delete_song_legacy s w) =
          Inr (if find (matches (ByKey (Oid k))) (docs w) = None
               then (Json (JObj [(''message'', JStr ''Song not found'')]), NOT_FOUND)
               else (Text [], NO_CONTENT))
      \<and> docs (snd (delete_song_legacy s w)) =
          (if find (matches (ByKey (Oid k))) (docs w) = None then docs w
           else remove_first (matches (ByKey (Oid k))) (docs w))
      \<and> (truthy (get_json req) \<longrightarrow>
           fst (update_song_legacy req s w) =
             Inr (case update_sem (ByKey (Oid k)) (get_json req) (docs w) of
                    Inl e \<Rightarrow>
                      (Json (JObj [(''error'', JStr ''Invalid song ID format'')]), BAD_REQUEST)
                  | Inr (None, ds) \<Rightarrow>
                      (Json (JObj [(''message'', JStr ''song not found'')]), NOT_FOUND)
                  | Inr (Some d, ds) \<Rightarrow> (Json (parse_json d), CREATED))
           \<and> docs (snd (update_song_legacy req s w)) =
               (case update_sem (ByKey (Oid k)) (get_json req) (docs w) of
                  Inl e \<Rightarrow> docs w | Inr (r, ds) \<Rightarrow> ds)))
   \<and> (\<not> isdigit s \<and> spaceless s \<and> ObjectId s = Inl e \<longrightarrow>
      fst (get_song s w) =
        Inr (Json (JObj [(''message'', JStr ''Song not found'')]), NOT_FOUND)
      \<and> fst (delete_song_legacy s w) =
          Inr (Json (JObj [(''message'', JStr ''Song not found'')]), NOT_FOUND)
      \<and> fst (update_song_legacy req s w) =
          Inr (Json (JObj [(''error'',
                 JStr (if truthy (get_json req) then ''Invalid song ID format''
                       else ''No input data provided''))]), BAD_REQUEST)
      \<and> docs (snd (get_song s w)) = docs w \<and> log (snd (get_song s w)) = log w
      \<and> docs (snd (delete_song_legacy s w)) = docs w
      \<and> log (snd (delete_song_legacy s w)) = log w
      \<and> docs (snd (update_song_legacy req s w)) = docs w
      \<and> log (snd (update_song_legacy req s w)) = log w)
   \<and> status_code NOT_FOUND = 404 \<and> status_code BAD_REQUEST = 400"
proof (intro conjI impI; (elim conjE)?)
  assume up: "outages w = []" and num: "py_int s = Inr n" "bson_int n"
  show "fst (get_song s w) =
      Inr (lookup_reply ''Song not found'' (find (matches (ById (JInt n))) (docs w)))"
    using get_song_digits_up(1) [OF up num] by (simp add: lookup_reply_def)
  show "docs (snd (get_song s w)) = docs w" by (rule get_song_digits_up(2) [OF up num])
  show "fst (delete_song_legacy s w) =
      Inr (if find (matches (ById (JInt n))) (docs w) = None
           then (Json (JObj [(''message'', JStr ''Song not found'')]), NOT_FOUND)
           else (Text [], NO_CONTENT))"
    by (rule delete_song_legacy_digits_up(1) [OF up num])
  show "docs (snd (delete_song_legacy s w)) =
      (if find (matches (ById (JInt n))) (docs w) = None then docs w
       else remove_first (matches (ById (JInt n))) (docs w))"
    by (rule delete_song_legacy_digits_up(2) [OF up num])
  show "fst (update_song_legacy req s w) =
      update_reply (update_sem (ById (JInt n)) (get_json req) (docs w))"
    if "truthy (get_json req)"
    by (rule update_song_legacy_digits_up(1) [OF up num(1) that])
  show "docs (snd (update_song_legacy req s w)) =
      (case update_sem (ById (JInt n)) (get_json req) (docs w) of
         Inl e \<Rightarrow> docs w | Inr (r, ds) \<Rightarrow> ds)"
    if "truthy (get_json req)"
    by (rule update_song_legacy_digits_up(2) [OF up num(1) that])
next
  assume up: "outages w = []" and key: "\<not> isdigit s" "ObjectId s = Inr k"
  show "fst (get_song s w) =
      Inr (lookup_reply ''Song not found'' (find (matches (ByKey (Oid k))) (docs w)))"
    by (rule get_song_key_up(1) [OF up key])
  show "docs (snd (get_song s w)) = docs w" by (rule get_song_key_up(2) [OF up key])
  show "fst (delete_song_legacy s w) =
      Inr (if find (matches (ByKey (Oid k))) (docs w) = None
           then (Json (JObj [(''message'', JStr ''Song not found'')]), NOT_FOUND)
           else (Text [], NO_CONTENT))"
    by (rule delete_song_legacy_key_up(1) [OF up key])
  show "docs (snd (delete_song_legacy s w)) =
      (if find (matches (ByKey (Oid k))) (docs w) = None then docs w
       else remove_first (matches (ByKey (Oid k))) (docs w))"
    by (rule delete_song_legacy_key_up(2) [OF up key])
  show "fst (update_song_legacy req s w) =
      Inr (case update_sem (ByKey (Oid k)) (get_json req) (docs w) of
             Inl e \<Rightarrow> (Json (JObj [(''error'', JStr ''Invalid song ID format'')]), BAD_REQUEST)
           | Inr (None, ds) \<Rightarrow> (Json (JObj [(''message'', JStr ''song not found'')]), NOT_FOUND)
           | Inr (Some d, ds) \<Rightarrow> (Json (parse_json d), CREATED))"
    if "truthy (get_json req)"
    by (rule update_song_legacy_key_up(1) [OF up key that])
  show "docs (snd (update_song_legacy req s w)) =
      (case update_sem (ByKey (Oid k)) (get_json req) (docs w) of
         Inl e \<Rightarrow> docs w | Inr (r, ds) \<Rightarrow> ds)"
    if "truthy (get_json req)"
    by (rule update_song_legacy_key_up(2) [OF up key that])
next
  assume bad: "\<not> isdigit s" "ObjectId s = Inl e"
  have get: "get_song s w =
      (Inr (Json (JObj [(''message'', JStr ''Song not found'')]), NOT_FOUND), w)"
    using bad by (simp add: get_song_def action_defs jsonify_def)
  have del: "delete_song_legacy s w =
      (Inr (Json (JObj [(''message'', JStr ''Song not found'')]), NOT_FOUND), w)"
    using bad by (simp add: delete_song_legacy_def action_defs jsonify_def)
  have put: "update_song_legacy req s w =
      (Inr (Json (JObj [(''error'',
              JStr (if truthy (get_json req) then ''Invalid song ID format''
                    else ''No input data provided''))]), BAD_REQUEST), w)"
    using bad by (simp add: update_song_legacy_def action_defs jsonify_def)
  show "fst (get_song s w) =
      Inr (Json (JObj [(''message'', JStr ''Song not found'')]), NOT_FOUND)"
    "docs (snd (get_song s w)) = docs w" "log (snd (get_song s w)) = log w"
    by (simp_all add: get)
  show "fst (delete_song_legacy s w) =
      Inr (Json (JObj [(''message'', JStr ''Song not found'')]), NOT_FOUND)"
    "docs (snd (delete_song_legacy s w)) = docs w" "log (snd (delete_song_legacy s w)) = log w"
    by (simp_all add: del)
  show "fst (update_song_legacy req s w) =
      Inr (Json (JObj [(''error'',
             JStr (if truthy (get_json req) then ''Invalid song ID format''
                   else ''No input data provided''))]), BAD_REQUEST)"
    "docs (snd (update_song_legacy req s w)) = docs w"
    "log (snd (update_song_legacy req s w)) = log w"
    by (simp_all add: put)
qed simp_all

theorem flexible_id_resolution_witness:
  "fst (get_song ''7'' one_song) = Inr (Json (parse_json song7), OK)
   \<and> fst (delete_song_legacy ''7'' one_song) = Inr (Text [], NO_CONTENT)
   \<and> docs (snd (delete_song_legacy ''7'' one_song)) = []
   \<and> fst (get_song ''0000000000000000000000ab'' lettered_key) = Inr (Json (parse_json song_ab), OK)
   \<and> docs (snd (delete_song_legacy ''0000000000000000000000ab'' lettered_key)) = []
   \<and> fst (get_song ''seven'' one_song) =
       Inr (Json (JObj [(''message'', JStr ''Song not found'')]), NOT_FOUND)
   \<and> fst (delete_song_legacy ''seven'' one_song) =
       Inr (Json (JObj [(''message'', JStr ''Song not found'')]), NOT_FOUND)
   \<and> docs (snd (delete_song_legacy ''seven'' one_song)) = [song7]
   \<and> fst (update_song_legacy (put_request (JObj [(''title'', JStr ''C'')])) ''seven'' one_song) =
       Inr (Json (JObj [(''error'', JStr ''Invalid song ID format'')]), BAD_REQUEST)"
proof -
  let ?put = "put_request (JObj [(''title'', JStr ''C'')])"
  have digits: "outages one_song = [] \<and> py_int ''7'' = Inr 7 \<and> bson_int 7"
    by (simp add: one_song_def py_int_def is_decimal_char_def digit_value_def bson_int_def)
  have key: "outages lettered_key = [] \<and> \<not> isdigit ''0000000000000000000000ab''
      \<and> ObjectId ''0000000000000000000000ab'' = Inr 171"
    by (simp add: lettered_key_def isdigit_def is_digit_char_def is_decimal_char_def
        ObjectId_def hex_value_def)
  have neither: "\<not> isdigit ''seven'' \<and> spaceless ''seven'' \<and> ObjectId ''seven'' = Inl InvalidId"
    by (simp add: isdigit_def is_digit_char_def is_decimal_char_def ObjectId_def spaceless_def)
  have body: "truthy (get_json ?put)" by (simp add: put_request_def)
  note by_digits =
    flexible_id_resolution [where w = one_song and s = "''7''" and n = 7 and req = ?put,
      THEN conjunct1, THEN mp, OF digits]
  note by_key =
    flexible_id_resolution [where w = lettered_key and s = "''0000000000000000000000ab''"
        and req = ?put and k = 171,
      THEN conjunct2, THEN conjunct1, THEN mp, OF key]
  note by_neither =
    flexible_id_resolution [where w = one_song and s = "''seven''" and req = ?put
        and e = InvalidId,
      THEN conjunct2, THEN conjunct2, THEN conjunct1, THEN mp, OF neither]
  show ?thesis
    using by_digits by_key by_neither body
    by (simp add: lookup_reply_def one_song_def song7_def lettered_key_def song_ab_def)
qed

text \<open>
  The claim as stated fails on a string of digits that is too long. The segment
  \<^verbatim>\<open>99999999999999999999\<close> consists of decimal digits and is no native key, and the
  integer it spells does not fit in 64 bits: the driver cannot encode the filter,
  no record is looked up, \<^verbatim>\<open>GET\<close> answers 400 by the handler's \<^verbatim>\<open>except\<close> clause, and
  \<^verbatim>\<open>PUT\<close> and \<^verbatim>\<open>DELETE\<close> answer 500.
\<close>

theorem long_digits_counterexample:
  "isdigit ''99999999999999999999''
   \<and> py_int ''99999999999999999999'' = Inr 99999999999999999999
   \<and> ObjectId ''99999999999999999999'' = Inl InvalidId
   \<and> fst (get_song ''99999999999999999999'' one_song) =
       Inr (Json (JObj [(''error'', JStr ''Invalid song ID'')]), BAD_REQUEST)
   \<and> fst (update_song_legacy (put_request (JObj [(''title'', JStr ''C'')]))
        ''99999999999999999999'' one_song) =
       Inr (Json (JObj [(''error'', JStr ''Failed to update song'')]), INTERNAL_SERVER_ERROR)
   \<and> fst (delete_song_legacy ''99999999999999999999'' one_song) =
       Inr (Json (JObj [(''error'', JStr ''Failed to delete song'')]), INTERNAL_SERVER_ERROR)
   \<and> trace (snd (get_song ''99999999999999999999'' one_song)) =
       [(FindOne (ById (JInt 99999999999999999999)), Some OverflowError)]
   \<and> BAD_REQUEST \<noteq> NOT_FOUND \<and> INTERNAL_SERVER_ERROR \<noteq> NOT_FOUND
   \<and> INTERNAL_SERVER_ERROR \<noteq> BAD_REQUEST"
  by (simp add: sample_defs route_defs store_defs action_defs jsonify_def
      isdigit_def is_digit_char_def is_decimal_char_def py_int_def digit_value_def
      ObjectId_def plain_key_def)

text \<open>
  \<^verbatim>\<open>str.isdigit\<close> also accepts the superscript digits, which \<^verbatim>\<open>int\<close> refuses: on the
  segment of one superscript two the routes take the digit branch and \<^verbatim>\<open>int\<close> raises
  \<^verbatim>\<open>ValueError\<close> before any store call. The statement above says nothing about such
  segments.
\<close>

lemma superscript_digit_segment:
  "isdigit [CHR 0xB2]
   \<and> py_int [CHR 0xB2] = Inl ValueError
   \<and> fst (get_song [CHR 0xB2] one_song) =
       Inr (Json (JObj [(''error'', JStr ''Invalid song ID'')]), BAD_REQUEST)
   \<and> fst (update_song_legacy (put_request (JObj [(''title'', JStr ''C'')])) [CHR 0xB2] one_song) =
       Inr (Json (JObj [(''error'', JStr ''Failed to update song'')]), INTERNAL_SERVER_ERROR)
   \<and> fst (delete_song_legacy [CHR 0xB2] one_song) =
       Inr (Json (JObj [(''error'', JStr ''Failed to delete song'')]), INTERNAL_SERVER_ERROR)
   \<and> trace (snd (get_song [CHR 0xB2] one_song)) = []"
  by (simp add: sample_defs route_defs action_defs jsonify_def
      isdigit_def is_digit_char_def is_decimal_char_def py_int_def)

end
